theory Spec2Isabelle
  imports Complex_Main
begin

section \<open>Arithmetic of the model\<close>

text \<open>
  The C++ sources compute in \<^verbatim>\<open>float\<close>. The model computes in the reals: rounding is
  not modelled, with one exception: the terminal position of \<^verbatim>\<open>AccelDesigner\<close>, the sum
  \<^verbatim>\<open>x_start + distance\<close>, is also given with its rounding to binary32 (\<open>binary32\<close> and
  \<open>AccelDesigner_reset_x0_x3\<close> below). A \<^verbatim>\<open>float\<close> operation whose result is no real
  number (a division by zero, which gives an infinity or a NaN in C++, and the square
  root of a negative number, which gives a NaN) is an explicit error value of the model,
  raised where the value arises; what the C++ code computes from such a value afterwards
  is not modelled.
\<close>

datatype error = DivisionByZero | SqrtOfNegative

definition and_then :: "error + 'a \<Rightarrow> ('a \<Rightarrow> error + 'b) \<Rightarrow> error + 'b" where
  "and_then m f = (case m of Inl e \<Rightarrow> Inl e | Inr x \<Rightarrow> f x)"

definition fdiv :: "real \<Rightarrow> real \<Rightarrow> error + real" where
  "fdiv x y = (if y = 0 then Inl DivisionByZero else Inr (x / y))"

definition fsqrt :: "real \<Rightarrow> error + real" where
  "fsqrt x = (if x < 0 then Inl SqrtOfNegative else Inr (sqrt x))"

text \<open>
  The messages written to \<^verbatim>\<open>std::cerr\<close> are collected in a list, in the order in
  which they are written:
  \<^item> \<open>NegativeDistance\<close>: \<^verbatim>\<open>Warning: distance < 0\<close>;
  \<^item> \<open>InfeasiblePeakVelocity\<close>: \<^verbatim>\<open>Error: AccelCurve::calcVelocityMax()\<close>;
  \<^item> \<open>ConstraintViolation d r\<close>: \<^verbatim>\<open>Error: distance constraint: d result: r\<close>;
  \<^item> \<open>TimeOrderingViolation\<close>: \<^verbatim>\<open>Error: Time Point\<close> and the dump that follows it.
\<close>

datatype anomaly =
    NegativeDistance
  | InfeasiblePeakVelocity
  | ConstraintViolation real real
  | TimeOrderingViolation

section \<open>AccelCurve\<close>

text \<open>
  The header fixes \<^verbatim>\<open>static constexpr const float j_max = 500000\<close>. Every function
  of the model takes the maximal jerk as its first argument \<open>J\<close>, so that the
  configuration of the repository's test program (\<open>240000\<close>) is an instance as well;
  \<open>j_max\<close> is the value of the header. \<open>J\<close> is a non-zero constant in every use.
\<close>

definition j_max :: real where
  "j_max = 500000"

text \<open>
  The private members of \<^verbatim>\<open>class AccelCurve\<close>. The fields carry the prefix \<open>c_\<close>
  (the members of \<^verbatim>\<open>AccelDesigner\<close> repeat some of the names).
\<close>

record AccelCurve =
  c_jm :: real
  c_am :: real
  c_t0 :: real
  c_t1 :: real
  c_t2 :: real
  c_t3 :: real
  c_v0 :: real
  c_v1 :: real
  c_v2 :: real
  c_v3 :: real
  c_x0 :: real
  c_x1 :: real
  c_x2 :: real
  c_x3 :: real
  c_tc :: real
  c_tm :: real

text \<open>The empty constructor \<^verbatim>\<open>AccelCurve()\<close>.\<close>

definition AccelCurve_empty :: AccelCurve where
  "AccelCurve_empty =
     \<lparr>c_jm = 0, c_am = 0, c_t0 = 0, c_t1 = 0, c_t2 = 0, c_t3 = 0,
      c_v0 = 0, c_v1 = 0, c_v2 = 0, c_v3 = 0,
      c_x0 = 0, c_x1 = 0, c_x2 = 0, c_x3 = 0, c_tc = 0, c_tm = 0\<rparr>"

definition calcTimeCurve :: "real \<Rightarrow> real \<Rightarrow> real" where
  "calcTimeCurve J am = \<bar>am\<bar> / J"

text \<open>The evaluators \<^verbatim>\<open>j\<close>, \<^verbatim>\<open>a\<close>, \<^verbatim>\<open>v\<close>, \<^verbatim>\<open>x\<close> (all \<^verbatim>\<open>const\<close>).\<close>

definition AccelCurve_j :: "real \<Rightarrow> AccelCurve \<Rightarrow> real \<Rightarrow> real" where
  "AccelCurve_j J c t =
     (if t \<le> c_t0 c then 0
      else if t \<le> c_t1 c then J
      else if t \<le> c_t2 c then 0
      else if t \<le> c_t3 c then - J
      else 0)"

definition AccelCurve_a :: "AccelCurve \<Rightarrow> real \<Rightarrow> real" where
  "AccelCurve_a c t =
     (if t \<le> c_t0 c then 0
      else if t \<le> c_t1 c then c_jm c * (t - c_t0 c)
      else if t \<le> c_t2 c then c_am c
      else if t \<le> c_t3 c then - c_jm c * (t - c_t3 c)
      else 0)"

definition AccelCurve_v :: "AccelCurve \<Rightarrow> real \<Rightarrow> real" where
  "AccelCurve_v c t =
     (if t \<le> c_t0 c then c_v0 c
      else if t \<le> c_t1 c then c_v0 c + (1/2) * c_jm c * (t - c_t0 c) * (t - c_t0 c)
      else if t \<le> c_t2 c then c_v1 c + c_am c * (t - c_t1 c)
      else if t \<le> c_t3 c then c_v3 c - (1/2) * c_jm c * (t - c_t3 c) * (t - c_t3 c)
      else c_v3 c)"

definition AccelCurve_x :: "AccelCurve \<Rightarrow> real \<Rightarrow> real" where
  "AccelCurve_x c t =
     (if t \<le> c_t0 c then c_x0 c + c_v0 c * (t - c_t0 c)
      else if t \<le> c_t1 c then
        c_x0 c + c_v0 c * (t - c_t0 c)
          + c_jm c / 6 * (t - c_t0 c) * (t - c_t0 c) * (t - c_t0 c)
      else if t \<le> c_t2 c then
        c_x1 c + c_v1 c * (t - c_t1 c) + c_am c / 2 * (t - c_t1 c) * (t - c_t1 c)
      else if t \<le> c_t3 c then
        c_x3 c + c_v3 c * (t - c_t3 c)
          + c_jm c / 6 * (t - c_t3 c) * (t - c_t3 c) * (t - c_t3 c)
      else c_x3 c + c_v3 c * (t - c_t3 c))"

definition AccelCurve_t_end :: "AccelCurve \<Rightarrow> real" where
  "AccelCurve_t_end c = c_t3 c"

definition AccelCurve_v_end :: "AccelCurve \<Rightarrow> real" where
  "AccelCurve_v_end c = c_v3 c"

definition AccelCurve_x_end :: "AccelCurve \<Rightarrow> real" where
  "AccelCurve_x_end c = c_x3 c"

text \<open>
  \<^verbatim>\<open>reset\<close> assigns the members one after the other, and calls \<^verbatim>\<open>v\<close> and \<^verbatim>\<open>x\<close>
  on the object while some members still hold their old values. The model threads the
  object through the assignments in the order of the source, starting from the old
  object \<open>c\<close>. The two branches on \<open>tm\<close> are \<open>AccelCurve_reset_times\<close>.
\<close>

definition AccelCurve_reset_times :: "AccelCurve \<Rightarrow> error + AccelCurve" where
  "AccelCurve_reset_times c =
     (if c_tm c > 0 then
        (let c = c\<lparr>c_t1 := c_t0 c + c_tc c\<rparr>;
             c = c\<lparr>c_t2 := c_t1 c + c_tm c\<rparr>;
             c = c\<lparr>c_t3 := c_t2 c + c_tc c\<rparr>
         in Inr c)
      else
        and_then (fdiv (c_tc c) (c_am c)) (\<lambda>q.
        and_then (fsqrt (q * (c_v3 c - c_v0 c))) (\<lambda>r.
          (let c = c\<lparr>c_t1 := c_t0 c + r\<rparr>;
               c = c\<lparr>c_t2 := c_t1 c\<rparr>;
               c = c\<lparr>c_t3 := c_t2 c + (c_t1 c - c_t0 c)\<rparr>
           in Inr c))))"

definition AccelCurve_reset ::
  "real \<Rightarrow> AccelCurve \<Rightarrow> real \<Rightarrow> real \<Rightarrow> real \<Rightarrow> error + AccelCurve" where
  "AccelCurve_reset J c a_max v_start v_end =
     (let c = c\<lparr>c_tc := calcTimeCurve J a_max\<rparr>;
          c = c\<lparr>c_am := (if v_end - v_start > 0 then a_max else - a_max)\<rparr>;
          c = c\<lparr>c_jm := (if v_end - v_start > 0 then J else - J)\<rparr>;
          c = c\<lparr>c_v0 := v_start\<rparr>;
          c = c\<lparr>c_v3 := v_end\<rparr>;
          c = c\<lparr>c_t0 := 0\<rparr>;
          c = c\<lparr>c_x0 := 0\<rparr>
      in
        and_then (fdiv (c_v3 c - c_v0 c) (c_am c)) (\<lambda>q.
        and_then (AccelCurve_reset_times (c\<lparr>c_tm := q - c_tc c\<rparr>)) (\<lambda>c.
          (let c = c\<lparr>c_v1 := AccelCurve_v c (c_t1 c)\<rparr>;
               c = c\<lparr>c_v2 := AccelCurve_v c (c_t2 c)\<rparr>;
               c = c\<lparr>c_x1 := AccelCurve_x c (c_t1 c)\<rparr>;
               c = c\<lparr>c_x2 := AccelCurve_x c (c_t2 c)\<rparr>;
               c = c\<lparr>c_x3 := c_x0 c + (c_v0 c + c_v3 c) / 2 * (c_t3 c - c_t0 c)\<rparr>
           in Inr c))))"

text \<open>
  The constructor \<^verbatim>\<open>AccelCurve(a_max, v_start, v_end)\<close> calls \<^verbatim>\<open>reset\<close> on an
  object whose members are not initialised. The model starts from the empty object;
  \<open>AccelCurve_reset_old\<close> below shows that the old object has no influence on the result.
\<close>

definition AccelCurve_new :: "real \<Rightarrow> real \<Rightarrow> real \<Rightarrow> real \<Rightarrow> error + AccelCurve" where
  "AccelCurve_new J a_max v_start v_end = AccelCurve_reset J AccelCurve_empty a_max v_start v_end"

definition calcMinDistance :: "real \<Rightarrow> real \<Rightarrow> real \<Rightarrow> real \<Rightarrow> error + real" where
  "calcMinDistance J a_max v_start v_end =
     and_then (AccelCurve_new J a_max v_start v_end) (\<lambda>ac. Inr (AccelCurve_x_end ac))"

text \<open>
  \<^verbatim>\<open>std::pow(std::complex<float>(re, im), 1.0f / 3)\<close> is the principal cube root:
  the polar form of modulus \<open>|z| ^ (1/3)\<close> and argument \<open>arg z / 3\<close>. It is only called
  with a positive imaginary part.
\<close>

definition cpow_third :: "complex \<Rightarrow> complex" where
  "cpow_third z = rcis (cmod z powr (1/3)) (Arg z / 3)"

definition calcVelocityEnd :: "real \<Rightarrow> real \<Rightarrow> real \<Rightarrow> real \<Rightarrow> real \<Rightarrow> error + real" where
  "calcVelocityEnd J a_max vs vt d =
     (let tc = calcTimeCurve J a_max;
          am = (if vt - vs > 0 then a_max else - a_max)
      in
        and_then (fdiv am tc) (\<lambda>q.
          if d > (2 * vs + q * tc * tc) * tc then
            (let amtc = am * tc;
                 D = amtc * amtc - 4 * (amtc * vs - vs * vs - 2 * am * d)
             in and_then (fsqrt D) (\<lambda>r. Inr ((- amtc + r) / 2)))
          else
            and_then (fdiv (am * d * d) tc) (\<lambda>b.
              (let a = vs;
                   aaa = a * a * a;
                   c0 = 27 * (32 * aaa * b + 27 * b * b);
                   c1 = 16 * aaa + 27 * b
               in
                 if c0 \<ge> 0 then
                   and_then (fsqrt c0) (\<lambda>r.
                     (let c2 = root 3 ((r + c1) / 2)
                      in and_then (fdiv (4 * a * a) c2) (\<lambda>w. Inr ((c2 + w - a) / 3))))
                 else
                   and_then (fsqrt (- c0)) (\<lambda>r.
                     (let c2 = cpow_third (Complex (c1 / 2) (r / 2))
                      in Inr ((Re c2 * 2 - a) / 3)))))))"

text \<open>\<^verbatim>\<open>calcVelocityMax\<close> returns its value together with what it wrote to \<^verbatim>\<open>std::cerr\<close>.\<close>

definition calcVelocityMax :: "real \<Rightarrow> real \<Rightarrow> real \<Rightarrow> real \<Rightarrow> real \<Rightarrow> anomaly list \<times> real" where
  "calcVelocityMax J am vs ve d =
     (let tc = calcTimeCurve J am;
          amtc = am * tc;
          D = amtc * amtc - 2 * (vs + ve) * amtc + 4 * am * d + 2 * (vs * vs + ve * ve)
      in if D < 0 then ([InfeasiblePeakVelocity], vs)
         else ([], (- amtc + sqrt D) / 2))"

section \<open>AccelDesigner\<close>

text \<open>The private members of \<^verbatim>\<open>class AccelDesigner\<close>, with the prefix \<open>d_\<close>.\<close>

record AccelDesigner =
  d_t0 :: real
  d_t1 :: real
  d_t2 :: real
  d_t3 :: real
  d_x0 :: real
  d_x3 :: real
  d_ac :: AccelCurve
  d_dc :: AccelCurve

text \<open>The empty constructor \<^verbatim>\<open>AccelDesigner()\<close>, whose members \<^verbatim>\<open>ac\<close> and \<^verbatim>\<open>dc\<close> are empty curves.\<close>

definition AccelDesigner_empty :: AccelDesigner where
  "AccelDesigner_empty =
     \<lparr>d_t0 = 0, d_t1 = 0, d_t2 = 0, d_t3 = 0, d_x0 = 0, d_x3 = 0,
      d_ac = AccelCurve_empty, d_dc = AccelCurve_empty\<rparr>"

text \<open>
  \<^verbatim>\<open>reset\<close> returns the messages it wrote and the object. The quotient
  \<^verbatim>\<open>(distance - ac.x_end() - dc.x_end()) / v_max\<close> occurs twice in the source, in
  \<^verbatim>\<open>t2\<close> and in \<^verbatim>\<open>t3\<close>; the model computes it once.
\<close>

definition AccelDesigner_reset ::
  "real \<Rightarrow> AccelDesigner \<Rightarrow> real \<Rightarrow> real \<Rightarrow> real \<Rightarrow> real \<Rightarrow> real \<Rightarrow> real \<Rightarrow> real
     \<Rightarrow> error + (anomaly list \<times> AccelDesigner)" where
  "AccelDesigner_reset J ad a_max v_start v_sat v_target distance x_start t_start =
     (let v_max = max v_start (max v_sat v_target);
          v_end = v_target;
          (msgs, v_end, v_max, distance) =
            (if distance \<le> 0 then ([NegativeDistance], v_start, v_start, 0)
             else ([], v_end, v_max, distance))
      in
        and_then (calcMinDistance J a_max v_start v_end) (\<lambda>m.
        and_then
          (if distance < m then
             and_then (calcVelocityEnd J a_max v_start v_target distance) (\<lambda>ve.
               Inr (ve, max v_start ve))
           else Inr (v_end, v_max)) (\<lambda>(v_end, v_max).
        and_then (AccelCurve_reset J (d_ac ad) a_max v_start v_max) (\<lambda>ac.
        and_then (AccelCurve_reset J (d_dc ad) a_max v_max v_end) (\<lambda>dc.
        and_then
          (if distance < AccelCurve_x_end ac + AccelCurve_x_end dc then
             (let (msgs', vm) = calcVelocityMax J a_max v_start v_end distance;
                  v_max = min vm v_sat;
                  v_max = max v_max (max v_start v_end)
              in
                and_then (AccelCurve_reset J ac a_max v_start v_max) (\<lambda>ac.
                and_then (AccelCurve_reset J dc a_max v_max v_end) (\<lambda>dc.
                  Inr (msgs @ msgs', v_max, ac, dc))))
           else Inr (msgs, v_max, ac, dc)) (\<lambda>(msgs, v_max, ac, dc).
          (let msgs =
                 (if AccelCurve_x_end ac + AccelCurve_x_end dc > distance + 1/10
                  then msgs @ [ConstraintViolation distance
                                (AccelCurve_x_end ac + AccelCurve_x_end dc)]
                  else msgs);
               ad = ad\<lparr>d_ac := ac, d_dc := dc\<rparr>;
               ad = ad\<lparr>d_x0 := x_start\<rparr>;
               ad = ad\<lparr>d_x3 := x_start + distance\<rparr>;
               ad = ad\<lparr>d_t0 := t_start\<rparr>;
               ad = ad\<lparr>d_t1 := d_t0 ad + AccelCurve_t_end ac\<rparr>
           in
             and_then
               (fdiv (distance - AccelCurve_x_end ac - AccelCurve_x_end dc) v_max) (\<lambda>cruise.
               (let ad = ad\<lparr>d_t2 := d_t0 ad + AccelCurve_t_end ac + cruise\<rparr>;
                    ad = ad\<lparr>d_t3 := d_t0 ad + AccelCurve_t_end ac + cruise
                                        + AccelCurve_t_end dc\<rparr>;
                    e = 1/1000;
                    msgs =
                      (if \<not> (d_t0 ad \<le> d_t1 ad + e \<and> d_t1 ad \<le> d_t2 ad + e
                              \<and> d_t2 ad \<le> d_t3 ad + e)
                       then msgs @ [TimeOrderingViolation]
                       else msgs)
                in Inr (msgs, ad))))))))))"

text \<open>The evaluators and the accessors of \<^verbatim>\<open>AccelDesigner\<close>.\<close>

definition AccelDesigner_j :: "real \<Rightarrow> AccelDesigner \<Rightarrow> real \<Rightarrow> real" where
  "AccelDesigner_j J ad t =
     (if t < d_t2 ad then AccelCurve_j J (d_ac ad) (t - d_t0 ad)
      else AccelCurve_j J (d_dc ad) (t - d_t2 ad))"

definition AccelDesigner_a :: "AccelDesigner \<Rightarrow> real \<Rightarrow> real" where
  "AccelDesigner_a ad t =
     (if t < d_t2 ad then AccelCurve_a (d_ac ad) (t - d_t0 ad)
      else AccelCurve_a (d_dc ad) (t - d_t2 ad))"

definition AccelDesigner_v :: "AccelDesigner \<Rightarrow> real \<Rightarrow> real" where
  "AccelDesigner_v ad t =
     (if t < d_t2 ad then AccelCurve_v (d_ac ad) (t - d_t0 ad)
      else AccelCurve_v (d_dc ad) (t - d_t2 ad))"

definition AccelDesigner_x :: "AccelDesigner \<Rightarrow> real \<Rightarrow> real" where
  "AccelDesigner_x ad t =
     (if t < d_t2 ad then d_x0 ad + AccelCurve_x (d_ac ad) (t - d_t0 ad)
      else d_x3 ad - AccelCurve_x_end (d_dc ad) + AccelCurve_x (d_dc ad) (t - d_t2 ad))"

definition AccelDesigner_t_end :: "AccelDesigner \<Rightarrow> real" where
  "AccelDesigner_t_end ad = d_t3 ad"

definition AccelDesigner_v_end :: "AccelDesigner \<Rightarrow> real" where
  "AccelDesigner_v_end ad = AccelCurve_v_end (d_dc ad)"

definition AccelDesigner_x_end :: "AccelDesigner \<Rightarrow> real" where
  "AccelDesigner_x_end ad = d_x3 ad"

section \<open>Definitions for the claims\<close>

text \<open>
  \<open>calcVelocityMax_spec\<close> follows the words of the specification, not the source:
  \<open>tc = a_max / j_max\<close>, \<open>amtc = a_max * tc\<close>,
  \<open>D = amtc\<^sup>2 - 2 (vs + ve) amtc + 4 a_max d + 2 (vs\<^sup>2 + ve\<^sup>2)\<close>; for \<open>D \<ge> 0\<close> the
  value is \<open>(- amtc + sqrt D) / 2\<close>, for \<open>D < 0\<close> the error is reported and the value
  is \<open>vs\<close>.
\<close>

definition calcVelocityMax_spec :: "real \<Rightarrow> real \<Rightarrow> real \<Rightarrow> real \<Rightarrow> real \<Rightarrow> anomaly list \<times> real" where
  "calcVelocityMax_spec J a_max vs ve d =
     (let tc = a_max / J;
          amtc = a_max * tc;
          D = amtc\<^sup>2 - 2 * (vs + ve) * amtc + 4 * a_max * d + 2 * (vs\<^sup>2 + ve\<^sup>2)
      in if D \<ge> 0 then ([], (- amtc + sqrt D) / 2)
         else ([InfeasiblePeakVelocity], vs))"

text \<open>
  Rounding to binary32, the format of \<^verbatim>\<open>float\<close>: the nearest number with a significand
  of 24 bits, a tie going to the even significand; below \<open>2 powr - 126\<close> the spacing is
  that of the subnormal numbers, \<open>2 powr - 149\<close>. A number of magnitude \<open>2 ^ 128\<close> or more
  is rounded to an infinity in C++; \<open>binary32\<close> is only used below that.
\<close>

definition round_to_even :: "real \<Rightarrow> int" where
  "round_to_even y =
     (let f = \<lfloor>y\<rfloor>
      in if y - of_int f < 1/2 then f
         else if y - of_int f > 1/2 then f + 1
         else if even f then f else f + 1)"

definition binary32 :: "real \<Rightarrow> real" where
  "binary32 x =
     (if x = 0 then 0
      else (let e = max \<lfloor>log 2 \<bar>x\<bar>\<rfloor> (- 126);
                u = 2 powr (of_int e - 23)
            in of_int (round_to_even (x / u)) * u))"

text \<open>
  The members \<^verbatim>\<open>x0\<close> and \<^verbatim>\<open>x3\<close> after \<^verbatim>\<open>AccelDesigner::reset\<close>. They depend on the
  arguments \<^verbatim>\<open>distance\<close> and \<^verbatim>\<open>x_start\<close> alone: through the clamp of a distance
  \<open>\<le> 0\<close> (lines 67 to 71) and the two assignments \<^verbatim>\<open>x0 = x_start\<close> and
  \<^verbatim>\<open>x3 = x_start + distance\<close> (lines 95 and 96), which read no value that a division or a
  square root has produced. \<open>rnd\<close> is the rounding of the one addition: \<open>id\<close> in the
  exact arithmetic of the model, \<open>binary32\<close> in C++.
\<close>

definition AccelDesigner_reset_x0_x3 :: "(real \<Rightarrow> real) \<Rightarrow> real \<Rightarrow> real \<Rightarrow> real \<times> real" where
  "AccelDesigner_reset_x0_x3 rnd distance x_start =
     (let distance = (if distance \<le> 0 then 0 else distance);
          x0 = x_start;
          x3 = rnd (x_start + distance)
      in (x0, x3))"

section \<open>Auxiliary definitions for the proofs\<close>

text \<open>
  The assignments of \<open>AccelCurve_reset\<close> before the branch on \<open>tm\<close> (given the quotient
  \<open>q = (v3 - v0) / am\<close>) and after it; \<open>AccelCurve_reset_split\<close> below shows that they
  compose to \<open>AccelCurve_reset\<close>. Two objects have the \<open>same_inputs\<close> when they agree on
  the members that the branch reads.
\<close>

definition AccelCurve_reset_head :: "real \<Rightarrow> AccelCurve \<Rightarrow> real \<Rightarrow> real \<Rightarrow> real \<Rightarrow> real \<Rightarrow> AccelCurve" where
  "AccelCurve_reset_head J c a_max v_start v_end q =
     c\<lparr>c_tc := calcTimeCurve J a_max,
       c_am := (if v_end - v_start > 0 then a_max else - a_max),
       c_jm := (if v_end - v_start > 0 then J else - J),
       c_v0 := v_start, c_v3 := v_end, c_t0 := 0, c_x0 := 0,
       c_tm := q - calcTimeCurve J a_max\<rparr>"

definition AccelCurve_reset_tail :: "AccelCurve \<Rightarrow> AccelCurve" where
  "AccelCurve_reset_tail c =
     (let c = c\<lparr>c_v1 := AccelCurve_v c (c_t1 c)\<rparr>;
               c = c\<lparr>c_v2 := AccelCurve_v c (c_t2 c)\<rparr>;
               c = c\<lparr>c_x1 := AccelCurve_x c (c_t1 c)\<rparr>;
               c = c\<lparr>c_x2 := AccelCurve_x c (c_t2 c)\<rparr>;
               c = c\<lparr>c_x3 := c_x0 c + (c_v0 c + c_v3 c) / 2 * (c_t3 c - c_t0 c)\<rparr>
           in c)"

definition same_inputs :: "AccelCurve \<Rightarrow> AccelCurve \<Rightarrow> bool" where
  "same_inputs c c' \<longleftrightarrow>
     c_jm c = c_jm c' \<and> c_am c = c_am c' \<and> c_t0 c = c_t0 c' \<and> c_v0 c = c_v0 c'
     \<and> c_v3 c = c_v3 c' \<and> c_x0 c = c_x0 c' \<and> c_tc c = c_tc c' \<and> c_tm c = c_tm c'"

text \<open>
  The stages of \<open>AccelDesigner_reset\<close>, cut out of its definition: the clamp of a
  distance \<open>\<le> 0\<close>, the choice of the velocities and the two curves
  (\<open>AccelDesigner_reset_plan\<close>, whose second half is \<open>AccelDesigner_reset_curves\<close>), and
  the assignment of the members (\<open>AccelDesigner_reset_finish\<close>);
  \<open>AccelDesigner_reset_split\<close> below shows that they compose to \<open>AccelDesigner_reset\<close>.
\<close>

definition AccelDesigner_reset_plan ::
  "real \<Rightarrow> AccelDesigner \<Rightarrow> real \<Rightarrow> real \<Rightarrow> real \<Rightarrow> real
     \<Rightarrow> anomaly list \<times> real \<times> real \<times> real
     \<Rightarrow> error + (anomaly list \<times> real \<times> AccelCurve \<times> AccelCurve)" where
  "AccelDesigner_reset_plan J ad a_max v_start v_sat v_target =
     (\<lambda>(msgs, v_end, v_max, distance).
        and_then (calcMinDistance J a_max v_start v_end) (\<lambda>m.
        and_then
          (if distance < m then
             and_then (calcVelocityEnd J a_max v_start v_target distance) (\<lambda>ve.
               Inr (ve, max v_start ve))
           else Inr (v_end, v_max)) (\<lambda>(v_end, v_max).
        and_then (AccelCurve_reset J (d_ac ad) a_max v_start v_max) (\<lambda>ac.
        and_then (AccelCurve_reset J (d_dc ad) a_max v_max v_end) (\<lambda>dc.
          (if distance < AccelCurve_x_end ac + AccelCurve_x_end dc then
             (let (msgs', vm) = calcVelocityMax J a_max v_start v_end distance;
                  v_max = min vm v_sat;
                  v_max = max v_max (max v_start v_end)
              in
                and_then (AccelCurve_reset J ac a_max v_start v_max) (\<lambda>ac.
                and_then (AccelCurve_reset J dc a_max v_max v_end) (\<lambda>dc.
                  Inr (msgs @ msgs', v_max, ac, dc))))
           else Inr (msgs, v_max, ac, dc)))))))"

definition AccelDesigner_reset_finish ::
  "AccelDesigner \<Rightarrow> real \<Rightarrow> real \<Rightarrow> real
     \<Rightarrow> anomaly list \<times> real \<times> AccelCurve \<times> AccelCurve
     \<Rightarrow> error + (anomaly list \<times> AccelDesigner)" where
  "AccelDesigner_reset_finish ad distance x_start t_start =
     (\<lambda>(msgs, v_max, ac, dc).
          (let msgs =
                 (if AccelCurve_x_end ac + AccelCurve_x_end dc > distance + 1/10
                  then msgs @ [ConstraintViolation distance
                                (AccelCurve_x_end ac + AccelCurve_x_end dc)]
                  else msgs);
               ad = ad\<lparr>d_ac := ac, d_dc := dc\<rparr>;
               ad = ad\<lparr>d_x0 := x_start\<rparr>;
               ad = ad\<lparr>d_x3 := x_start + distance\<rparr>;
               ad = ad\<lparr>d_t0 := t_start\<rparr>;
               ad = ad\<lparr>d_t1 := d_t0 ad + AccelCurve_t_end ac\<rparr>
           in
             and_then
               (fdiv (distance - AccelCurve_x_end ac - AccelCurve_x_end dc) v_max) (\<lambda>cruise.
               (let ad = ad\<lparr>d_t2 := d_t0 ad + AccelCurve_t_end ac + cruise\<rparr>;
                    ad = ad\<lparr>d_t3 := d_t0 ad + AccelCurve_t_end ac + cruise
                                        + AccelCurve_t_end dc\<rparr>;
                    e = 1/1000;
                    msgs =
                      (if \<not> (d_t0 ad \<le> d_t1 ad + e \<and> d_t1 ad \<le> d_t2 ad + e
                              \<and> d_t2 ad \<le> d_t3 ad + e)
                       then msgs @ [TimeOrderingViolation]
                       else msgs)
                in Inr (msgs, ad)))))"

definition AccelDesigner_reset_clamp ::
  "real \<Rightarrow> real \<Rightarrow> real \<Rightarrow> real \<Rightarrow> anomaly list \<times> real \<times> real \<times> real" where
  "AccelDesigner_reset_clamp v_start v_sat v_target distance =
     (if distance \<le> 0 then ([NegativeDistance], v_start, v_start, 0)
      else ([], v_target, max v_start (max v_sat v_target), distance))"

definition AccelDesigner_reset_curves ::
  "real \<Rightarrow> AccelDesigner \<Rightarrow> real \<Rightarrow> real \<Rightarrow> real
     \<Rightarrow> anomaly list \<times> real \<times> real \<times> real
     \<Rightarrow> error + (anomaly list \<times> real \<times> AccelCurve \<times> AccelCurve)" where
  "AccelDesigner_reset_curves J ad a_max v_start v_sat =
     (\<lambda>(msgs, v_end, v_max, distance).
        and_then (AccelCurve_reset J (d_ac ad) a_max v_start v_max) (\<lambda>ac.
        and_then (AccelCurve_reset J (d_dc ad) a_max v_max v_end) (\<lambda>dc.
          (if distance < AccelCurve_x_end ac + AccelCurve_x_end dc then
             (let (msgs', vm) = calcVelocityMax J a_max v_start v_end distance;
                  v_max = min vm v_sat;
                  v_max = max v_max (max v_start v_end)
              in
                and_then (AccelCurve_reset J ac a_max v_start v_max) (\<lambda>ac.
                and_then (AccelCurve_reset J dc a_max v_max v_end) (\<lambda>dc.
                  Inr (msgs @ msgs', v_max, ac, dc))))
           else Inr (msgs, v_max, ac, dc)))))"

text \<open>
  The curves that \<open>AccelCurve_reset\<close> produces in two of its cases, in closed form: for
  \<open>v_start = v_end\<close> (no motion in time) and for a velocity difference that needs the
  phase of constant acceleration (\<open>AccelCurve_reset_still\<close> and
  \<open>AccelCurve_reset_plateau\<close> below).
\<close>

definition AccelCurve_still :: "real \<Rightarrow> real \<Rightarrow> real \<Rightarrow> AccelCurve" where
  "AccelCurve_still J a v =
     \<lparr>c_jm = - J, c_am = - a, c_t0 = 0, c_t1 = 0, c_t2 = 0, c_t3 = 0,
      c_v0 = v, c_v1 = v, c_v2 = v, c_v3 = v,
      c_x0 = 0, c_x1 = 0, c_x2 = 0, c_x3 = 0,
      c_tc = calcTimeCurve J a, c_tm = - calcTimeCurve J a\<rparr>"

definition AccelCurve_plateau :: "real \<Rightarrow> real \<Rightarrow> real \<Rightarrow> real \<Rightarrow> AccelCurve" where
  "AccelCurve_plateau J a vs ve =
     (let tc = calcTimeCurve J a;
          am = (if ve - vs > 0 then a else - a);
          jm = (if ve - vs > 0 then J else - J);
          tm = (ve - vs) / am - tc;
          v1 = vs + (1/2) * jm * tc * tc;
          x1 = vs * tc + jm / 6 * tc * tc * tc
      in \<lparr>c_jm = jm, c_am = am, c_t0 = 0, c_t1 = tc, c_t2 = tc + tm, c_t3 = tc + tm + tc,
          c_v0 = vs, c_v1 = v1, c_v2 = v1 + am * tm, c_v3 = ve,
          c_x0 = 0, c_x1 = x1, c_x2 = x1 + v1 * tm + am / 2 * tm * tm,
          c_x3 = (vs + ve) / 2 * (tc + tm + tc),
          c_tc = tc, c_tm = tm\<rparr>)"

text \<open>
  The object and the messages that \<open>AccelDesigner_reset_finish\<close> produces from the two
  curves and the cruise duration, in closed form (\<open>reset_finish_value\<close> below).
\<close>

definition AccelDesigner_built ::
  "AccelCurve \<Rightarrow> AccelCurve \<Rightarrow> real \<Rightarrow> real \<Rightarrow> real \<Rightarrow> real \<Rightarrow> AccelDesigner" where
  "AccelDesigner_built ac dc cruise distance x_start t_start =
     \<lparr>d_t0 = t_start, d_t1 = t_start + c_t3 ac, d_t2 = t_start + c_t3 ac + cruise,
      d_t3 = t_start + c_t3 ac + cruise + c_t3 dc,
      d_x0 = x_start, d_x3 = x_start + distance, d_ac = ac, d_dc = dc\<rparr>"

definition AccelDesigner_finish_msgs ::
  "AccelCurve \<Rightarrow> AccelCurve \<Rightarrow> real \<Rightarrow> real \<Rightarrow> anomaly list" where
  "AccelDesigner_finish_msgs ac dc cruise distance =
     (if c_x3 ac + c_x3 dc > distance + 1/10
      then [ConstraintViolation distance (c_x3 ac + c_x3 dc)] else [])
     @ (if \<not> (0 \<le> c_t3 ac + 1/1000 \<and> 0 \<le> cruise + 1/1000 \<and> 0 \<le> c_t3 dc + 1/1000)
        then [TimeOrderingViolation] else [])"

section \<open>Basic facts\<close>

lemma and_then_Inr [simp]: "and_then (Inr x) f = f x"
  by (simp add: and_then_def)

lemma and_then_Inl [simp]: "and_then (Inl e) f = Inl e"
  by (simp add: and_then_def)

lemma and_then_eq_Inr:
  "and_then m f = Inr y \<longleftrightarrow> (\<exists>x. m = Inr x \<and> f x = Inr y)"
  by (cases m) simp_all

lemma fdiv_nonzero [simp]: "y \<noteq> 0 \<Longrightarrow> fdiv x y = Inr (x / y)"
  by (simp add: fdiv_def)

lemma fdiv_zero [simp]: "fdiv x 0 = Inl DivisionByZero"
  by (simp add: fdiv_def)

lemma fsqrt_nonneg [simp]: "0 \<le> x \<Longrightarrow> fsqrt x = Inr (sqrt x)"
  by (simp add: fsqrt_def)

lemma j_max_pos: "0 < j_max"
  by (simp add: j_max_def)

section \<open>The curve after \<open>reset\<close>\<close>

lemma reset_times_fields:
  assumes "AccelCurve_reset_times c = Inr c'"
  shows "c_jm c' = c_jm c" "c_am c' = c_am c" "c_t0 c' = c_t0 c" "c_v0 c' = c_v0 c" "c_v3 c' = c_v3 c"
    "c_x0 c' = c_x0 c" "c_tc c' = c_tc c" "c_tm c' = c_tm c"
  using assms
  by (auto simp: AccelCurve_reset_times_def Let_def and_then_eq_Inr split: if_splits)

lemma AccelCurve_reset_split:
  "AccelCurve_reset J c a_max v_start v_end =
     and_then (fdiv (v_end - v_start) (if v_end - v_start > 0 then a_max else - a_max)) (\<lambda>q.
     and_then (AccelCurve_reset_times (AccelCurve_reset_head J c a_max v_start v_end q)) (\<lambda>c.
       Inr (AccelCurve_reset_tail c)))"
  by (simp add: AccelCurve_reset_def AccelCurve_reset_head_def AccelCurve_reset_tail_def Let_def)

lemma reset_tail_fields:
  "c_jm (AccelCurve_reset_tail c) = c_jm c" "c_am (AccelCurve_reset_tail c) = c_am c"
  "c_t0 (AccelCurve_reset_tail c) = c_t0 c" "c_t1 (AccelCurve_reset_tail c) = c_t1 c"
  "c_t2 (AccelCurve_reset_tail c) = c_t2 c" "c_t3 (AccelCurve_reset_tail c) = c_t3 c"
  "c_v0 (AccelCurve_reset_tail c) = c_v0 c" "c_v3 (AccelCurve_reset_tail c) = c_v3 c"
  "c_x0 (AccelCurve_reset_tail c) = c_x0 c" "c_tc (AccelCurve_reset_tail c) = c_tc c"
  "c_tm (AccelCurve_reset_tail c) = c_tm c"
  "c_x3 (AccelCurve_reset_tail c) = c_x0 c + (c_v0 c + c_v3 c) / 2 * (c_t3 c - c_t0 c)"
  by (simp_all add: AccelCurve_reset_tail_def Let_def)

lemma sqrt_arg_nonneg:
  assumes "0 < J" "0 < a_max"
  shows "0 \<le> calcTimeCurve J a_max / (if v_end - v_start > 0 then a_max else - a_max) * (v_end - v_start)"
  using assms by (auto simp: calcTimeCurve_def field_simps)

lemma reset_times_total:
  assumes "0 < J" "0 < a_max"
  shows "\<exists>c1. AccelCurve_reset_times (AccelCurve_reset_head J c a_max v_start v_end q) = Inr c1
     \<and> c_t0 c1 \<le> c_t1 c1 \<and> c_t1 c1 \<le> c_t2 c1 \<and> c_t2 c1 \<le> c_t3 c1"
proof (cases "q - calcTimeCurve J a_max > 0")
  case True
  moreover have "0 \<le> calcTimeCurve J a_max"
    using assms by (simp add: calcTimeCurve_def)
  ultimately show ?thesis
    by (simp add: AccelCurve_reset_times_def AccelCurve_reset_head_def Let_def)
next
  case False
  have nz: "(if v_end - v_start > 0 then a_max else - a_max) \<noteq> 0"
    using assms by simp
  show ?thesis
    using False nz sqrt_arg_nonneg [OF assms, of v_end v_start]
    by (simp add: AccelCurve_reset_times_def AccelCurve_reset_head_def Let_def)
qed

lemma AccelCurve_reset_total:
  assumes "0 < J" "0 < a_max"
  shows "\<exists>c'. AccelCurve_reset J c a_max v_start v_end = Inr c'
     \<and> c_t0 c' \<le> c_t1 c' \<and> c_t1 c' \<le> c_t2 c' \<and> c_t2 c' \<le> c_t3 c'"
proof -
  have nz: "(if v_end - v_start > 0 then a_max else - a_max) \<noteq> 0"
    using assms by simp
  obtain c1 where c1: "AccelCurve_reset_times (AccelCurve_reset_head J c a_max v_start v_end
      ((v_end - v_start) / (if v_end - v_start > 0 then a_max else - a_max))) = Inr c1"
    and ord: "c_t0 c1 \<le> c_t1 c1" "c_t1 c1 \<le> c_t2 c1" "c_t2 c1 \<le> c_t3 c1"
    using reset_times_total [OF assms] by blast
  have "AccelCurve_reset J c a_max v_start v_end = Inr (AccelCurve_reset_tail c1)"
    unfolding AccelCurve_reset_split using nz c1 by simp
  with ord show ?thesis by (simp add: reset_tail_fields)
qed

lemma AccelCurve_reset_fields:
  assumes "AccelCurve_reset J c a_max v_start v_end = Inr c'"
  shows "c_t0 c' = 0" "c_x0 c' = 0" "c_v0 c' = v_start" "c_v3 c' = v_end"
    "c_am c' = (if v_end - v_start > 0 then a_max else - a_max)"
    "c_jm c' = (if v_end - v_start > 0 then J else - J)"
    "c_tc c' = calcTimeCurve J a_max"
    "c_x3 c' = (v_start + v_end) / 2 * c_t3 c'"
proof -
  from assms obtain q c1 where
    c1: "AccelCurve_reset_times (AccelCurve_reset_head J c a_max v_start v_end q) = Inr c1"
    and c': "c' = AccelCurve_reset_tail c1"
    by (auto simp: AccelCurve_reset_split and_then_eq_Inr)
  note f = reset_times_fields [OF c1] reset_tail_fields
  show "c_t0 c' = 0" "c_x0 c' = 0" "c_v0 c' = v_start" "c_v3 c' = v_end"
    "c_am c' = (if v_end - v_start > 0 then a_max else - a_max)"
    "c_jm c' = (if v_end - v_start > 0 then J else - J)"
    "c_tc c' = calcTimeCurve J a_max"
    "c_x3 c' = (v_start + v_end) / 2 * c_t3 c'"
    unfolding c' by (simp_all add: f AccelCurve_reset_head_def)
qed


lemma reset_head_same: "same_inputs (AccelCurve_reset_head J c a vs ve q) (AccelCurve_reset_head J c' a vs ve q)"
  by (simp add: same_inputs_def AccelCurve_reset_head_def)

lemma v_at_t1: "AccelCurve_v c (c_t1 c) =
    (if c_t1 c \<le> c_t0 c then c_v0 c else c_v0 c + (1/2) * c_jm c * (c_t1 c - c_t0 c) * (c_t1 c - c_t0 c))"
  by (simp add: AccelCurve_v_def)

lemma v_at_t2: "AccelCurve_v c (c_t2 c) =
    (if c_t2 c \<le> c_t0 c then c_v0 c
     else if c_t2 c \<le> c_t1 c then c_v0 c + (1/2) * c_jm c * (c_t2 c - c_t0 c) * (c_t2 c - c_t0 c)
     else c_v1 c + c_am c * (c_t2 c - c_t1 c))"
  by (simp add: AccelCurve_v_def)

lemma x_at_t1: "AccelCurve_x c (c_t1 c) =
    (if c_t1 c \<le> c_t0 c then c_x0 c + c_v0 c * (c_t1 c - c_t0 c)
     else c_x0 c + c_v0 c * (c_t1 c - c_t0 c)
          + c_jm c / 6 * (c_t1 c - c_t0 c) * (c_t1 c - c_t0 c) * (c_t1 c - c_t0 c))"
  by (simp add: AccelCurve_x_def)

lemma x_at_t2: "AccelCurve_x c (c_t2 c) =
    (if c_t2 c \<le> c_t0 c then c_x0 c + c_v0 c * (c_t2 c - c_t0 c)
     else if c_t2 c \<le> c_t1 c then c_x0 c + c_v0 c * (c_t2 c - c_t0 c)
          + c_jm c / 6 * (c_t2 c - c_t0 c) * (c_t2 c - c_t0 c) * (c_t2 c - c_t0 c)
     else c_x1 c + c_v1 c * (c_t2 c - c_t1 c) + c_am c / 2 * (c_t2 c - c_t1 c) * (c_t2 c - c_t1 c))"
  by (simp add: AccelCurve_x_def)

lemma reset_tail_v1: "c_v1 (AccelCurve_reset_tail c) = AccelCurve_v c (c_t1 c)"
  by (simp add: AccelCurve_reset_tail_def Let_def)

lemma reset_tail_x1: "c_x1 (AccelCurve_reset_tail c) = AccelCurve_x c (c_t1 c)"
proof -
  have "c_x1 (AccelCurve_reset_tail c) =
      AccelCurve_x (c\<lparr>c_v1 := AccelCurve_v c (c_t1 c), c_v2 := c_v2 (AccelCurve_reset_tail c)\<rparr>)
        (c_t1 (c\<lparr>c_v1 := AccelCurve_v c (c_t1 c), c_v2 := c_v2 (AccelCurve_reset_tail c)\<rparr>))"
    by (simp add: AccelCurve_reset_tail_def Let_def)
  also have "\<dots> = AccelCurve_x c (c_t1 c)"
    unfolding x_at_t1 by simp
  finally show ?thesis .
qed

lemma reset_tail_v2:
  "c_v2 (AccelCurve_reset_tail c) =
     (if c_t2 c \<le> c_t0 c then c_v0 c
      else if c_t2 c \<le> c_t1 c then c_v0 c + (1/2) * c_jm c * (c_t2 c - c_t0 c) * (c_t2 c - c_t0 c)
      else AccelCurve_v c (c_t1 c) + c_am c * (c_t2 c - c_t1 c))"
proof -
  have "c_v2 (AccelCurve_reset_tail c) =
      AccelCurve_v (c\<lparr>c_v1 := AccelCurve_v c (c_t1 c)\<rparr>)
        (c_t2 (c\<lparr>c_v1 := AccelCurve_v c (c_t1 c)\<rparr>))"
    by (simp add: AccelCurve_reset_tail_def Let_def)
  also have "\<dots> = (if c_t2 c \<le> c_t0 c then c_v0 c
      else if c_t2 c \<le> c_t1 c then c_v0 c + (1/2) * c_jm c * (c_t2 c - c_t0 c) * (c_t2 c - c_t0 c)
      else AccelCurve_v c (c_t1 c) + c_am c * (c_t2 c - c_t1 c))"
    unfolding v_at_t2 by simp
  finally show ?thesis .
qed

lemma reset_tail_x2:
  "c_x2 (AccelCurve_reset_tail c) =
     (if c_t2 c \<le> c_t0 c then c_x0 c + c_v0 c * (c_t2 c - c_t0 c)
      else if c_t2 c \<le> c_t1 c then c_x0 c + c_v0 c * (c_t2 c - c_t0 c)
          + c_jm c / 6 * (c_t2 c - c_t0 c) * (c_t2 c - c_t0 c) * (c_t2 c - c_t0 c)
      else AccelCurve_x c (c_t1 c) + AccelCurve_v c (c_t1 c) * (c_t2 c - c_t1 c)
          + c_am c / 2 * (c_t2 c - c_t1 c) * (c_t2 c - c_t1 c))"
proof -
  let ?c = "c\<lparr>c_v1 := AccelCurve_v c (c_t1 c), c_v2 := c_v2 (AccelCurve_reset_tail c),
             c_x1 := AccelCurve_x c (c_t1 c)\<rparr>"
  have "c_x2 (AccelCurve_reset_tail c) = AccelCurve_x ?c (c_t2 ?c)"
    using reset_tail_x1 [of c] reset_tail_v1 [of c]
    by (simp add: AccelCurve_reset_tail_def Let_def)
  also have "\<dots> = (if c_t2 c \<le> c_t0 c then c_x0 c + c_v0 c * (c_t2 c - c_t0 c)
      else if c_t2 c \<le> c_t1 c then c_x0 c + c_v0 c * (c_t2 c - c_t0 c)
          + c_jm c / 6 * (c_t2 c - c_t0 c) * (c_t2 c - c_t0 c) * (c_t2 c - c_t0 c)
      else AccelCurve_x c (c_t1 c) + AccelCurve_v c (c_t1 c) * (c_t2 c - c_t1 c)
          + c_am c / 2 * (c_t2 c - c_t1 c) * (c_t2 c - c_t1 c))"
    unfolding x_at_t2 by simp
  finally show ?thesis .
qed

lemmas reset_tail_values = reset_tail_v1 reset_tail_x1 reset_tail_v2 reset_tail_x2

lemma reset_tail_cong:
  assumes "same_inputs c c'" "c_t1 c = c_t1 c'" "c_t2 c = c_t2 c'" "c_t3 c = c_t3 c'"
  shows "AccelCurve_reset_tail c = AccelCurve_reset_tail c'"
proof (rule AccelCurve.equality)
  have eq: "c_jm c = c_jm c'" "c_am c = c_am c'" "c_t0 c = c_t0 c'" "c_v0 c = c_v0 c'"
     "c_v3 c = c_v3 c'" "c_x0 c = c_x0 c'" "c_tc c = c_tc c'" "c_tm c = c_tm c'"
    using assms by (simp_all add: same_inputs_def)
  note all = eq assms(2-4)
  have v: "AccelCurve_v c (c_t1 c) = AccelCurve_v c' (c_t1 c')"
    unfolding v_at_t1 by (simp add: all)
  have x: "AccelCurve_x c (c_t1 c) = AccelCurve_x c' (c_t1 c')"
    unfolding x_at_t1 by (simp add: all)
  have v': "AccelCurve_v c (c_t1 c') = AccelCurve_v c' (c_t1 c')"
    using v by (simp add: assms(2))
  have x': "AccelCurve_x c (c_t1 c') = AccelCurve_x c' (c_t1 c')"
    using x by (simp add: assms(2))
  show "c_v1 (AccelCurve_reset_tail c) = c_v1 (AccelCurve_reset_tail c')"
    by (simp only: reset_tail_values v)
  show "c_x1 (AccelCurve_reset_tail c) = c_x1 (AccelCurve_reset_tail c')"
    by (simp only: reset_tail_values x)
  show "c_v2 (AccelCurve_reset_tail c) = c_v2 (AccelCurve_reset_tail c')"
    by (simp only: reset_tail_values all v')
  show "c_x2 (AccelCurve_reset_tail c) = c_x2 (AccelCurve_reset_tail c')"
    by (simp only: reset_tail_values all v' x')
qed (simp_all add: reset_tail_fields assms(2-4) assms(1) [unfolded same_inputs_def])


lemma reset_times_cong:
  assumes "same_inputs c c'"
  shows "and_then (AccelCurve_reset_times c) (\<lambda>c. Inr (AccelCurve_reset_tail c))
       = and_then (AccelCurve_reset_times c') (\<lambda>c. Inr (AccelCurve_reset_tail c))"
proof -
  have eq: "c_jm c = c_jm c'" "c_am c = c_am c'" "c_t0 c = c_t0 c'" "c_v0 c = c_v0 c'"
     "c_v3 c = c_v3 c'" "c_x0 c = c_x0 c'" "c_tc c = c_tc c'" "c_tm c = c_tm c'"
    using assms by (simp_all add: same_inputs_def)
  show ?thesis
  proof (cases "c_tm c' > 0")
    case True
    then show ?thesis
      by (simp add: AccelCurve_reset_times_def Let_def eq)
         (rule reset_tail_cong, simp_all add: same_inputs_def eq)
  next
    case False
    show ?thesis
    proof (cases "fdiv (c_tc c') (c_am c')")
      case (Inl e)
      with False show ?thesis by (simp add: AccelCurve_reset_times_def eq)
    next
      case (Inr q)
      show ?thesis
      proof (cases "fsqrt (q * (c_v3 c' - c_v0 c'))")
        case (Inl e)
        with False Inr show ?thesis by (simp add: AccelCurve_reset_times_def eq)
      next
        case r: (Inr r)
        with False Inr show ?thesis
          by (simp add: AccelCurve_reset_times_def Let_def eq)
             (rule reset_tail_cong, simp_all add: same_inputs_def eq)
      qed
    qed
  qed
qed

lemma AccelCurve_reset_old:
  "AccelCurve_reset J c a_max v_start v_end = AccelCurve_reset J c' a_max v_start v_end"
proof (cases "fdiv (v_end - v_start) (if v_end - v_start > 0 then a_max else - a_max)")
  case (Inl e)
  then show ?thesis by (simp add: AccelCurve_reset_split)
next
  case (Inr q)
  then show ?thesis
    using reset_times_cong [OF reset_head_same, of J c a_max v_start v_end q c']
    by (simp add: AccelCurve_reset_split)
qed

lemma AccelCurve_reset_still:
  assumes "0 < J" "0 < a"
  shows "AccelCurve_reset J c a v v = Inr (AccelCurve_still J a v)"
proof -
  let ?tc = "calcTimeCurve J a"
  have tc: "0 < ?tc" using assms by (simp add: calcTimeCurve_def)
  let ?h = "AccelCurve_reset_head J AccelCurve_empty a v v 0"
  let ?c1 = "?h\<lparr>c_t1 := 0, c_t2 := 0, c_t3 := 0\<rparr>"
  have times: "AccelCurve_reset_times ?h = Inr ?c1"
    using tc assms(2)
    by (simp add: AccelCurve_reset_times_def AccelCurve_reset_head_def Let_def)
  have t: "c_t0 ?c1 = 0" "c_t1 ?c1 = 0" "c_t2 ?c1 = 0" "c_v0 ?c1 = v" "c_x0 ?c1 = 0"
    by (simp_all add: AccelCurve_reset_head_def)
  have v1: "AccelCurve_v ?c1 (c_t1 ?c1) = v"
    by (simp only: v_at_t1) (simp add: t)
  have x1: "AccelCurve_x ?c1 (c_t1 ?c1) = 0"
    by (simp only: x_at_t1) (simp add: t)
  have tail: "AccelCurve_reset_tail ?c1 = AccelCurve_still J a v"
  proof (rule AccelCurve.equality)
    show "c_v1 (AccelCurve_reset_tail ?c1) = c_v1 (AccelCurve_still J a v)"
      by (simp only: reset_tail_v1 v1) (simp add: AccelCurve_still_def)
    show "c_x1 (AccelCurve_reset_tail ?c1) = c_x1 (AccelCurve_still J a v)"
      by (simp only: reset_tail_x1 x1) (simp add: AccelCurve_still_def)
    show "c_v2 (AccelCurve_reset_tail ?c1) = c_v2 (AccelCurve_still J a v)"
      by (simp only: reset_tail_v2 v1) (simp add: t AccelCurve_still_def)
    show "c_x2 (AccelCurve_reset_tail ?c1) = c_x2 (AccelCurve_still J a v)"
      by (simp only: reset_tail_x2 v1 x1) (simp add: t AccelCurve_still_def)
  qed (simp_all add: reset_tail_fields AccelCurve_still_def AccelCurve_reset_head_def
         AccelCurve_empty_def)
  have "AccelCurve_reset J AccelCurve_empty a v v = Inr (AccelCurve_still J a v)"
    unfolding AccelCurve_reset_split using assms(2) times tail by simp
  then show ?thesis
    by (simp add: AccelCurve_reset_old [of J c a v v AccelCurve_empty])
qed

lemma AccelCurve_reset_plateau:
  assumes "0 < J" "0 < a" "calcTimeCurve J a < \<bar>ve - vs\<bar> / a"
  shows "AccelCurve_reset J c a vs ve = Inr (AccelCurve_plateau J a vs ve)"
proof -
  define am where "am = (if ve - vs > 0 then a else - a)"
  define jm where "jm = (if ve - vs > 0 then J else - J)"
  define tc where "tc = calcTimeCurve J a"
  define tm where "tm = (ve - vs) / am - tc"
  have tc: "0 < tc" using assms by (simp add: calcTimeCurve_def tc_def)
  have q: "(ve - vs) / am = \<bar>ve - vs\<bar> / a"
    using assms(2) by (auto simp: abs_if field_simps am_def)
  have tm: "0 < tm"
    unfolding tm_def q using assms(3) by (simp add: tc_def)
  have nz: "am \<noteq> 0" using assms(2) by (simp add: am_def)
  define h where "h = AccelCurve_reset_head J AccelCurve_empty a vs ve ((ve - vs) / am)"
  have h: "c_tc h = tc" "c_tm h = tm" "c_am h = am" "c_jm h = jm" "c_v0 h = vs" "c_v3 h = ve"
    "c_t0 h = 0" "c_x0 h = 0"
    by (simp_all add: h_def AccelCurve_reset_head_def tc_def tm_def am_def jm_def)
  define c1 where "c1 = h\<lparr>c_t1 := tc, c_t2 := tc + tm, c_t3 := tc + tm + tc\<rparr>"
  have times: "AccelCurve_reset_times h = Inr c1"
    using tm by (simp add: AccelCurve_reset_times_def Let_def h c1_def)
  have t: "c_t0 c1 = 0" "c_t1 c1 = tc" "c_t2 c1 = tc + tm" "c_t3 c1 = tc + tm + tc"
    "c_v0 c1 = vs" "c_v3 c1 = ve" "c_x0 c1 = 0" "c_jm c1 = jm" "c_am c1 = am"
    "c_tc c1 = tc" "c_tm c1 = tm"
    by (simp_all add: c1_def h)
  have v1: "AccelCurve_v c1 (c_t1 c1) = vs + (1/2) * jm * tc * tc"
    using tc by (simp only: v_at_t1) (simp add: t)
  have x1: "AccelCurve_x c1 (c_t1 c1) = vs * tc + jm / 6 * tc * tc * tc"
    using tc by (simp only: x_at_t1) (simp add: t)
  have p: "AccelCurve_plateau J a vs ve =
      \<lparr>c_jm = jm, c_am = am, c_t0 = 0, c_t1 = tc, c_t2 = tc + tm, c_t3 = tc + tm + tc,
       c_v0 = vs, c_v1 = vs + (1/2) * jm * tc * tc,
       c_v2 = vs + (1/2) * jm * tc * tc + am * tm, c_v3 = ve,
       c_x0 = 0, c_x1 = vs * tc + jm / 6 * tc * tc * tc,
       c_x2 = vs * tc + jm / 6 * tc * tc * tc + (vs + (1/2) * jm * tc * tc) * tm
              + am / 2 * tm * tm,
       c_x3 = (vs + ve) / 2 * (tc + tm + tc),
       c_tc = tc, c_tm = tm\<rparr>"
    unfolding AccelCurve_plateau_def Let_def am_def jm_def tc_def tm_def ..
  have tail: "AccelCurve_reset_tail c1 = AccelCurve_plateau J a vs ve"
  proof (rule AccelCurve.equality)
    show "c_v1 (AccelCurve_reset_tail c1) = c_v1 (AccelCurve_plateau J a vs ve)"
      by (simp only: reset_tail_v1 v1) (simp add: p)
    show "c_x1 (AccelCurve_reset_tail c1) = c_x1 (AccelCurve_plateau J a vs ve)"
      by (simp only: reset_tail_x1 x1) (simp add: p)
    show "c_v2 (AccelCurve_reset_tail c1) = c_v2 (AccelCurve_plateau J a vs ve)"
      using tc tm by (simp only: reset_tail_v2 v1) (simp add: t p)
    show "c_x2 (AccelCurve_reset_tail c1) = c_x2 (AccelCurve_plateau J a vs ve)"
      using tc tm by (simp only: reset_tail_x2 v1 x1) (simp add: t p)
  next
    show "AccelCurve.more (AccelCurve_reset_tail c1) = AccelCurve.more (AccelCurve_plateau J a vs ve)"
      by simp
  qed (simp_all add: reset_tail_fields t p)
  have r: "AccelCurve_reset J AccelCurve_empty a vs ve =
      and_then (fdiv (ve - vs) am) (\<lambda>q.
      and_then (AccelCurve_reset_times (AccelCurve_reset_head J AccelCurve_empty a vs ve q)) (\<lambda>c.
        Inr (AccelCurve_reset_tail c)))"
    unfolding am_def by (rule AccelCurve_reset_split)
  have d: "fdiv (ve - vs) am = Inr ((ve - vs) / am)"
    using nz by simp
  have "AccelCurve_reset J AccelCurve_empty a vs ve = Inr (AccelCurve_plateau J a vs ve)"
    unfolding r d and_then_Inr h_def [symmetric] times tail ..
  then show ?thesis
    by (simp add: AccelCurve_reset_old [of J c a vs ve AccelCurve_empty])
qed

section \<open>The designer after \<open>reset\<close>\<close>

lemma and_then_assoc: "and_then (and_then m f) g = and_then m (\<lambda>x. and_then (f x) g)"
  by (cases m) simp_all

lemma and_then_case_prod:
  "and_then (case p of (a, b) \<Rightarrow> f a b) g = (case p of (a, b) \<Rightarrow> and_then (f a b) g)"
  by (cases p) simp

lemma AccelDesigner_reset_split:
  "AccelDesigner_reset J ad a_max v_start v_sat v_target distance x_start t_start =
     and_then
       (AccelDesigner_reset_plan J ad a_max v_start v_sat v_target
          (AccelDesigner_reset_clamp v_start v_sat v_target distance))
       (AccelDesigner_reset_finish ad (if distance \<le> 0 then 0 else distance) x_start t_start)"
proof (cases "distance \<le> 0")
  case True
  then show ?thesis
    unfolding AccelDesigner_reset_def AccelDesigner_reset_plan_def
      AccelDesigner_reset_finish_def AccelDesigner_reset_clamp_def
    by (simp only: Let_def if_True prod.case and_then_assoc and_then_case_prod)
next
  case False
  then show ?thesis
    unfolding AccelDesigner_reset_def AccelDesigner_reset_plan_def
      AccelDesigner_reset_finish_def AccelDesigner_reset_clamp_def
    by (simp only: Let_def if_False prod.case and_then_assoc and_then_case_prod)
qed


lemma fdiv_eq_Inr: "fdiv x y = Inr q \<longleftrightarrow> y \<noteq> 0 \<and> q = x / y"
  by (auto simp: fdiv_def)

lemma reset_finish_shape:
  assumes "AccelDesigner_reset_finish ad distance x_start t_start (msgs, v_max, ac, dc) = Inr (lg, d)"
  shows "v_max \<noteq> 0" "d_ac d = ac" "d_dc d = dc" "d_x0 d = x_start" "d_x3 d = x_start + distance"
    "d_t0 d = t_start" "d_t1 d = t_start + c_t3 ac"
    "d_t2 d = t_start + c_t3 ac + (distance - c_x3 ac - c_x3 dc) / v_max"
    "d_t3 d = d_t2 d + c_t3 dc"
  using assms
  by (auto simp: AccelDesigner_reset_finish_def Let_def and_then_eq_Inr fdiv_eq_Inr
      AccelCurve_x_end_def AccelCurve_t_end_def)

lemma reset_finish_total:
  assumes "v_max \<noteq> 0"
  shows "\<exists>lg d. AccelDesigner_reset_finish ad distance x_start t_start (msgs, v_max, ac, dc) = Inr (lg, d)"
  using assms by (simp add: AccelDesigner_reset_finish_def Let_def)

lemma reset_plan_unfold:
  "AccelDesigner_reset_plan J ad a_max v_start v_sat v_target (msgs, v_end, v_max, distance) =
     and_then (calcMinDistance J a_max v_start v_end) (\<lambda>m.
     and_then
       (if distance < m then
          and_then (calcVelocityEnd J a_max v_start v_target distance) (\<lambda>ve.
            Inr (ve, max v_start ve))
        else Inr (v_end, v_max)) (\<lambda>(v_end, v_max).
     AccelDesigner_reset_curves J ad a_max v_start v_sat (msgs, v_end, v_max, distance)))"
  by (simp only: AccelDesigner_reset_plan_def AccelDesigner_reset_curves_def prod.case)

lemma reset_curves_shape:
  assumes "AccelDesigner_reset_curves J ad a_max v_start v_sat (msgs, v_end, v_max, distance)
             = Inr (msgs', vm, ac, dc)"
  shows "\<exists>ca cb. AccelCurve_reset J ca a_max v_start vm = Inr ac
                  \<and> AccelCurve_reset J cb a_max vm v_end = Inr dc"
proof -
  from assms obtain ac0 dc0 where
    ac0: "AccelCurve_reset J (d_ac ad) a_max v_start v_max = Inr ac0" and
    dc0: "AccelCurve_reset J (d_dc ad) a_max v_max v_end = Inr dc0" and
    rest: "(if distance < AccelCurve_x_end ac0 + AccelCurve_x_end dc0 then
             (let (msgs', vm) = calcVelocityMax J a_max v_start v_end distance;
                  v_max = min vm v_sat;
                  v_max = max v_max (max v_start v_end)
              in
                and_then (AccelCurve_reset J ac0 a_max v_start v_max) (\<lambda>ac.
                and_then (AccelCurve_reset J dc0 a_max v_max v_end) (\<lambda>dc.
                  Inr (msgs @ msgs', v_max, ac, dc))))
           else Inr (msgs, v_max, ac0, dc0)) = Inr (msgs', vm, ac, dc)"
    unfolding AccelDesigner_reset_curves_def prod.case and_then_eq_Inr by blast
  show ?thesis
  proof (cases "distance < AccelCurve_x_end ac0 + AccelCurve_x_end dc0")
    case False
    with rest ac0 dc0 show ?thesis by auto
  next
    case True
    obtain ms w where cv: "calcVelocityMax J a_max v_start v_end distance = (ms, w)"
      by (cases "calcVelocityMax J a_max v_start v_end distance")
    from rest True cv show ?thesis
      by (auto simp: Let_def and_then_eq_Inr)
  qed
qed

lemma reset_plan_shape:
  assumes "AccelDesigner_reset_plan J ad a_max v_start v_sat v_target (msgs, v_end, v_max, distance)
             = Inr (msgs', vm, ac, dc)"
  shows "\<exists>ca cb ve. AccelCurve_reset J ca a_max v_start vm = Inr ac
                  \<and> AccelCurve_reset J cb a_max vm ve = Inr dc"
proof -
  from assms obtain ve vx where
    "AccelDesigner_reset_curves J ad a_max v_start v_sat (msgs, ve, vx, distance)
       = Inr (msgs', vm, ac, dc)"
    unfolding reset_plan_unfold and_then_eq_Inr by (auto split: prod.splits)
  from reset_curves_shape [OF this] show ?thesis by blast
qed

lemma reset_plan_total:
  assumes "0 < J" "0 < a_max" "calcMinDistance J a_max v_start v_end = Inr m" "\<not> distance < m"
    "max v_start v_end \<le> v_max"
  shows "\<exists>msgs' vm ac dc.
           AccelDesigner_reset_plan J ad a_max v_start v_sat v_target (msgs, v_end, v_max, distance)
             = Inr (msgs', vm, ac, dc) \<and> max v_start v_end \<le> vm"
proof -
  obtain ac where ac: "AccelCurve_reset J (d_ac ad) a_max v_start v_max = Inr ac"
    using AccelCurve_reset_total [OF assms(1,2)] by blast
  obtain dc where dc: "AccelCurve_reset J (d_dc ad) a_max v_max v_end = Inr dc"
    using AccelCurve_reset_total [OF assms(1,2)] by blast
  show ?thesis
  proof (cases "distance < AccelCurve_x_end ac + AccelCurve_x_end dc")
    case False
    then show ?thesis
      using assms(3-5) ac dc
      by (simp add: reset_plan_unfold AccelDesigner_reset_curves_def)
  next
    case True
    obtain ms w where cv: "calcVelocityMax J a_max v_start v_end distance = (ms, w)"
      by (cases "calcVelocityMax J a_max v_start v_end distance")
    let ?vm = "max (min w v_sat) (max v_start v_end)"
    obtain ac' where ac': "AccelCurve_reset J ac a_max v_start ?vm = Inr ac'"
      using AccelCurve_reset_total [OF assms(1,2)] by blast
    obtain dc' where dc': "AccelCurve_reset J dc a_max ?vm v_end = Inr dc'"
      using AccelCurve_reset_total [OF assms(1,2)] by blast
    show ?thesis
      using True assms(3-5) ac dc cv ac' dc'
      by (auto simp: reset_plan_unfold AccelDesigner_reset_curves_def Let_def)
  qed
qed

lemma clamp_positive:
  "0 < distance \<Longrightarrow> AccelDesigner_reset_clamp v_start v_sat v_target distance
     = ([], v_target, max v_start (max v_sat v_target), distance)"
  by (simp add: AccelDesigner_reset_clamp_def)

lemma AccelDesigner_reset_shape:
  assumes "AccelDesigner_reset J ad a_max v_start v_sat v_target distance x_start t_start = Inr (lg, d)"
  shows "\<exists>v_max v_end ca cb.
    AccelCurve_reset J ca a_max v_start v_max = Inr (d_ac d)
    \<and> AccelCurve_reset J cb a_max v_max v_end = Inr (d_dc d)
    \<and> v_max \<noteq> 0
    \<and> d_x0 d = x_start \<and> d_x3 d = x_start + (if distance \<le> 0 then 0 else distance)
    \<and> d_t0 d = t_start \<and> d_t1 d = t_start + c_t3 (d_ac d)
    \<and> d_t2 d = t_start + c_t3 (d_ac d)
         + ((if distance \<le> 0 then 0 else distance) - c_x3 (d_ac d) - c_x3 (d_dc d)) / v_max
    \<and> d_t3 d = d_t2 d + c_t3 (d_dc d)"
proof -
  obtain ms ve vx dist where cl:
    "AccelDesigner_reset_clamp v_start v_sat v_target distance = (ms, ve, vx, dist)"
    by (cases "AccelDesigner_reset_clamp v_start v_sat v_target distance") auto
  from assms obtain ms' vm ac dc where
    plan: "AccelDesigner_reset_plan J ad a_max v_start v_sat v_target (ms, ve, vx, dist)
             = Inr (ms', vm, ac, dc)" and
    fin: "AccelDesigner_reset_finish ad (if distance \<le> 0 then 0 else distance) x_start t_start
            (ms', vm, ac, dc) = Inr (lg, d)"
    unfolding AccelDesigner_reset_split cl and_then_eq_Inr by auto
  note f = reset_finish_shape [OF fin]
  from reset_plan_shape [OF plan] obtain ca cb ve' where
    "AccelCurve_reset J ca a_max v_start vm = Inr ac" "AccelCurve_reset J cb a_max vm ve' = Inr dc"
    by blast
  then show ?thesis
    using f by (intro exI [of _ vm] exI [of _ ve'] exI [of _ ca] exI [of _ cb]) simp
qed

lemma calcMinDistance_brake_720: "calcMinDistance j_max 3600 720 0 = Inr (9324 / 125)"
  by (simp add: calcMinDistance_def AccelCurve_new_def AccelCurve_reset_def
      AccelCurve_reset_times_def Let_def calcTimeCurve_def AccelCurve_x_end_def j_max_def)

lemma fsqrt_eq_Inr: "fsqrt x = Inr r \<longleftrightarrow> 0 \<le> x \<and> r = sqrt x"
  by (auto simp: fsqrt_def)

lemma reset_times_ordered:
  assumes "0 \<le> c_tc c" "AccelCurve_reset_times c = Inr c'"
  shows "c_t0 c' \<le> c_t1 c'" "c_t1 c' \<le> c_t2 c'" "c_t2 c' \<le> c_t3 c'"
  using assms
  by (auto simp: AccelCurve_reset_times_def Let_def and_then_eq_Inr fsqrt_eq_Inr
      split: if_splits)

lemma AccelCurve_reset_ordered:
  assumes "0 < J" "AccelCurve_reset J c a_max v_start v_end = Inr c'"
  shows "c_t0 c' \<le> c_t1 c'" "c_t1 c' \<le> c_t2 c'" "c_t2 c' \<le> c_t3 c'"
proof -
  from assms(2) obtain q c1 where
    c1: "AccelCurve_reset_times (AccelCurve_reset_head J c a_max v_start v_end q) = Inr c1"
    and c': "c' = AccelCurve_reset_tail c1"
    by (auto simp: AccelCurve_reset_split and_then_eq_Inr)
  have "0 \<le> c_tc (AccelCurve_reset_head J c a_max v_start v_end q)"
    using assms(1) by (simp add: AccelCurve_reset_head_def calcTimeCurve_def)
  from reset_times_ordered [OF this c1]
  show "c_t0 c' \<le> c_t1 c'" "c_t1 c' \<le> c_t2 c'" "c_t2 c' \<le> c_t3 c'"
    by (simp_all add: c' reset_tail_fields)
qed

lemma AccelCurve_before:
  assumes "t < c_t0 c"
  shows "AccelCurve_j J c t = 0" "AccelCurve_a c t = 0" "AccelCurve_v c t = c_v0 c"
    "AccelCurve_x c t = c_x0 c + c_v0 c * (t - c_t0 c)"
  using assms by (simp_all add: AccelCurve_j_def AccelCurve_a_def AccelCurve_v_def AccelCurve_x_def)

lemma AccelCurve_after:
  assumes "c_t0 c \<le> c_t1 c" "c_t1 c \<le> c_t2 c" "c_t2 c \<le> c_t3 c" "c_t3 c < t"
  shows "AccelCurve_j J c t = 0" "AccelCurve_a c t = 0" "AccelCurve_v c t = c_v3 c"
    "AccelCurve_x c t = c_x3 c + c_v3 c * (t - c_t3 c)"
  using assms by (simp_all add: AccelCurve_j_def AccelCurve_a_def AccelCurve_v_def AccelCurve_x_def)

lemma reset_finish_value:
  assumes "v_max \<noteq> 0"
  shows "AccelDesigner_reset_finish ad distance x_start t_start (msgs, v_max, ac, dc) =
     Inr (msgs @ AccelDesigner_finish_msgs ac dc ((distance - c_x3 ac - c_x3 dc) / v_max) distance,
          AccelDesigner_built ac dc ((distance - c_x3 ac - c_x3 dc) / v_max)
            distance x_start t_start)"
proof -
  have b: "ad\<lparr>d_ac := ac, d_dc := dc, d_x0 := x_start, d_x3 := x_start + distance,
            d_t0 := t_start, d_t1 := t_start + c_t3 ac,
            d_t2 := t_start + c_t3 ac + (distance - c_x3 ac - c_x3 dc) / v_max,
            d_t3 := t_start + c_t3 ac + (distance - c_x3 ac - c_x3 dc) / v_max + c_t3 dc\<rparr>
        = AccelDesigner_built ac dc ((distance - c_x3 ac - c_x3 dc) / v_max)
            distance x_start t_start"
    by (cases ad) (simp add: AccelDesigner_built_def)
  show ?thesis
    using assms
    by (simp add: AccelDesigner_reset_finish_def Let_def AccelCurve_x_end_def
        AccelCurve_t_end_def b AccelDesigner_finish_msgs_def)
qed

lemma calcMinDistance_value:
  assumes "AccelCurve_reset J c a_max v_start v_end = Inr ac"
  shows "calcMinDistance J a_max v_start v_end = Inr (c_x3 ac)"
  using assms AccelCurve_reset_old [of J AccelCurve_empty a_max v_start v_end c]
  by (simp add: calcMinDistance_def AccelCurve_new_def AccelCurve_x_end_def)

lemma reset_plan_direct:
  assumes "calcMinDistance J a_max v_start v_end = Inr m" "\<not> distance < m"
    "AccelCurve_reset J c1 a_max v_start v_max = Inr ac"
    "AccelCurve_reset J c2 a_max v_max v_end = Inr dc"
    "\<not> distance < c_x3 ac + c_x3 dc"
  shows "AccelDesigner_reset_plan J ad a_max v_start v_sat v_target (msgs, v_end, v_max, distance)
           = Inr (msgs, v_max, ac, dc)"
proof -
  have "AccelCurve_reset J (d_ac ad) a_max v_start v_max = Inr ac"
    using assms(3) by (simp add: AccelCurve_reset_old [of J "d_ac ad" _ _ _ c1])
  moreover have "AccelCurve_reset J (d_dc ad) a_max v_max v_end = Inr dc"
    using assms(4) by (simp add: AccelCurve_reset_old [of J "d_dc ad" _ _ _ c2])
  ultimately show ?thesis
    using assms(1,2,5)
    by (simp add: reset_plan_unfold AccelDesigner_reset_curves_def AccelCurve_x_end_def)
qed

lemma AccelDesigner_reset_zero:
  assumes "0 < J" "0 < a_max" "distance \<le> 0"
  shows "AccelDesigner_reset J ad a_max v_start v_sat v_target distance x_start t_start =
     (if v_start = 0 then Inl DivisionByZero
      else Inr ([NegativeDistance],
             AccelDesigner_built (AccelCurve_still J a_max v_start)
               (AccelCurve_still J a_max v_start) 0 0 x_start t_start))"
proof -
  let ?s = "AccelCurve_still J a_max v_start"
  have s: "AccelCurve_reset J c a_max v_start v_start = Inr ?s" for c
    by (rule AccelCurve_reset_still [OF assms(1,2)])
  have x: "c_x3 ?s = 0" "c_t3 ?s = 0"
    by (simp_all add: AccelCurve_still_def)
  have m: "calcMinDistance J a_max v_start v_start = Inr 0"
    using calcMinDistance_value [OF s] by (simp add: x)
  have plan: "AccelDesigner_reset_plan J ad a_max v_start v_sat v_target
                ([NegativeDistance], v_start, v_start, 0)
              = Inr ([NegativeDistance], v_start, ?s, ?s)"
    by (rule reset_plan_direct [OF m _ s s]) (simp_all add: x)
  have r: "AccelDesigner_reset J ad a_max v_start v_sat v_target distance x_start t_start =
      AccelDesigner_reset_finish ad 0 x_start t_start ([NegativeDistance], v_start, ?s, ?s)"
    using assms(3) plan
    by (simp add: AccelDesigner_reset_split AccelDesigner_reset_clamp_def)
  show ?thesis
  proof (cases "v_start = 0")
    case True
    then show ?thesis
      unfolding r by (simp add: AccelDesigner_reset_finish_def Let_def x AccelCurve_x_end_def)
  next
    case False
    then show ?thesis
      unfolding r reset_finish_value [OF False]
      by (simp add: x AccelDesigner_finish_msgs_def)
  qed
qed

lemma AccelDesigner_reset_cruise:
  assumes "0 < distance"
    "calcMinDistance J a_max v_start v_target = Inr m" "\<not> distance < m"
    "AccelCurve_reset J c1 a_max v_start (max v_start (max v_sat v_target)) = Inr ac"
    "AccelCurve_reset J c2 a_max (max v_start (max v_sat v_target)) v_target = Inr dc"
    "\<not> distance < c_x3 ac + c_x3 dc"
    "max v_start (max v_sat v_target) \<noteq> 0"
  shows "AccelDesigner_reset J ad a_max v_start v_sat v_target distance x_start t_start =
     Inr (AccelDesigner_finish_msgs ac dc
            ((distance - c_x3 ac - c_x3 dc) / max v_start (max v_sat v_target)) distance,
          AccelDesigner_built ac dc
            ((distance - c_x3 ac - c_x3 dc) / max v_start (max v_sat v_target))
            distance x_start t_start)"
proof -
  have plan: "AccelDesigner_reset_plan J ad a_max v_start v_sat v_target
                ([], v_target, max v_start (max v_sat v_target), distance)
              = Inr ([], max v_start (max v_sat v_target), ac, dc)"
    by (rule reset_plan_direct [OF assms(2-6)])
  show ?thesis
    using assms(1)
    by (simp add: AccelDesigner_reset_split clamp_positive plan reset_finish_value [OF assms(7)])
qed

lemma calcVelocityMax_example: "calcVelocityMax 1 1 0 0 2 = ([], 1)"
proof -
  have "sqrt 9 = 3"
    using real_sqrt_abs [of 3] by simp
  then show ?thesis
    by (simp add: calcVelocityMax_def calcTimeCurve_def Let_def)
qed

lemma AccelCurve_still_v [simp]: "AccelCurve_v (AccelCurve_still J a v) s = v"
  by (simp add: AccelCurve_v_def AccelCurve_still_def)

lemma brake_velocity_bounds:
  assumes f: "c_t0 c = 0" "c_t1 c = tc" "c_t2 c = T2" "c_t3 c = T2 + tc" "c_v0 c = V"
      "c_v1 c = V - J * (tc * tc) / 2" "c_v3 c = 0" "c_jm c = - J" "c_am c = - a"
    and J: "0 < J" and tc: "0 < tc" and a: "J * tc = a" and V: "a * T2 = V" and lt: "tc < T2"
  shows "0 \<le> AccelCurve_v c s \<and> AccelCurve_v c s \<le> V"
proof -
  have a0: "0 < a" using J tc a by (metis mult_pos_pos)
  have sq: "J * (tc * tc) = a * tc" using a by (simp add: mult.assoc [symmetric])
  have atc0: "0 < a * tc" using a0 tc by simp
  have atc: "a * tc < V" using V lt a0 by (metis mult_strict_left_mono)
  consider "s \<le> 0" | "0 < s" "s \<le> tc" | "tc < s" "s \<le> T2" | "T2 < s" "s \<le> T2 + tc"
    | "T2 + tc < s" by linarith
  then show ?thesis
  proof cases
    case 1
    then show ?thesis using atc atc0 by (simp add: AccelCurve_v_def f)
  next
    case 2
    have "s * s \<le> tc * tc" using 2 by (intro mult_mono) simp_all
    then have up: "J * (s * s) \<le> J * (tc * tc)" using J by simp
    have lo: "0 \<le> J * (s * s)" using J by simp
    have "AccelCurve_v c s = V - J * (s * s) / 2"
      using 2 by (simp add: AccelCurve_v_def f mult.assoc)
    then show ?thesis using up lo sq atc atc0 by linarith
  next
    case 3
    have "a * s \<le> a * T2" using 3 a0 by simp
    then have 1: "a * s \<le> V" using V by simp
    have 2: "a * tc < a * s" using 3 a0 by simp
    have "AccelCurve_v c s = V - J * (tc * tc) / 2 - a * (s - tc)"
      using 3 tc by (simp add: AccelCurve_v_def f)
    also have "\<dots> = V + a * tc / 2 - a * s" by (simp add: sq algebra_simps)
    finally show ?thesis using 1 2 atc0 by linarith
  next
    case 4
    define u where "u = T2 + tc - s"
    have u: "0 \<le> u" "u \<le> tc" using 4 by (simp_all add: u_def)
    have "u * u \<le> tc * tc" using u by (intro mult_mono) simp_all
    then have up: "J * (u * u) \<le> J * (tc * tc)" using J by simp
    have lo: "0 \<le> J * (u * u)" using J u by simp
    have "AccelCurve_v c s = J * ((s - (T2 + tc)) * (s - (T2 + tc))) / 2"
      using 4 tc lt by (simp add: AccelCurve_v_def f mult.assoc)
    also have "(s - (T2 + tc)) * (s - (T2 + tc)) = u * u"
      by (simp add: u_def algebra_simps)
    finally show ?thesis using up lo sq atc atc0 by linarith
  next
    case 5
    then show ?thesis using atc atc0 tc lt by (simp add: AccelCurve_v_def f)
  qed
qed

lemma plateau_brake_fields:
  assumes "0 < J" "0 < a" "0 < V"
  shows "c_t0 (AccelCurve_plateau J a V 0) = 0"
    "c_t1 (AccelCurve_plateau J a V 0) = a / J"
    "c_t2 (AccelCurve_plateau J a V 0) = V / a"
    "c_t3 (AccelCurve_plateau J a V 0) = V / a + a / J"
    "c_v0 (AccelCurve_plateau J a V 0) = V"
    "c_v1 (AccelCurve_plateau J a V 0) = V - J * ((a / J) * (a / J)) / 2"
    "c_v3 (AccelCurve_plateau J a V 0) = 0"
    "c_jm (AccelCurve_plateau J a V 0) = - J"
    "c_am (AccelCurve_plateau J a V 0) = - a"
    "c_x3 (AccelCurve_plateau J a V 0) = V / 2 * (V / a + a / J)"
  using assms
  by (simp_all add: AccelCurve_plateau_def Let_def calcTimeCurve_def)


lemma scenario_brake_distance:
  assumes "72000 \<le> J"
  shows "c_x3 (AccelCurve_plateau J 3600 720 0) = 72 + 1296000 / J"
    "c_x3 (AccelCurve_plateau J 3600 720 0) \<le> 90"
    "c_t3 (AccelCurve_plateau J 3600 720 0) = 1 / 5 + 3600 / J"
proof -
  have J: "0 < J" using assms by simp
  show x: "c_x3 (AccelCurve_plateau J 3600 720 0) = 72 + 1296000 / J"
    using J by (simp add: plateau_brake_fields field_simps)
  have "1296000 / J \<le> 18" using assms J by (simp add: field_simps)
  then show "c_x3 (AccelCurve_plateau J 3600 720 0) \<le> 90" unfolding x by simp
  show "c_t3 (AccelCurve_plateau J 3600 720 0) = 1 / 5 + 3600 / J"
    using J by (simp add: plateau_brake_fields)
qed

lemma scenario_reset:
  assumes "72000 \<le> J"
  shows "AccelDesigner_reset J ad 3600 720 720 0 90 x_start t_start =
     Inr ([], AccelDesigner_built (AccelCurve_still J 3600 720) (AccelCurve_plateau J 3600 720 0)
                ((90 - c_x3 (AccelCurve_plateau J 3600 720 0)) / 720) 90 x_start t_start)"
proof -
  have J: "0 < J" using assms by simp
  have "3600 / J < 1 / 5" using assms J by (simp add: field_simps)
  then have cond: "calcTimeCurve J 3600 < \<bar>0 - 720\<bar> / 3600"
    by (simp add: calcTimeCurve_def)
  have ac: "AccelCurve_reset J AccelCurve_empty 3600 720 (max 720 (max 720 0))
              = Inr (AccelCurve_still J 3600 720)"
    using AccelCurve_reset_still [OF J, of 3600 AccelCurve_empty 720] by simp
  have dc0: "AccelCurve_reset J AccelCurve_empty 3600 720 0 = Inr (AccelCurve_plateau J 3600 720 0)"
    using AccelCurve_reset_plateau [OF J _ cond] by simp
  then have dc: "AccelCurve_reset J AccelCurve_empty 3600 (max 720 (max 720 0)) 0
              = Inr (AccelCurve_plateau J 3600 720 0)"
    by simp
  note x = scenario_brake_distance [OF assms]
  have s: "c_x3 (AccelCurve_still J 3600 720) = 0" "c_t3 (AccelCurve_still J 3600 720) = 0"
    by (simp_all add: AccelCurve_still_def)
  have m: "calcMinDistance J 3600 720 0 = Inr (c_x3 (AccelCurve_plateau J 3600 720 0))"
    by (rule calcMinDistance_value [OF dc0])
  have far: "\<not> 90 < c_x3 (AccelCurve_plateau J 3600 720 0)"
    using x(2) by simp
  have far2: "\<not> 90 < c_x3 (AccelCurve_still J 3600 720) + c_x3 (AccelCurve_plateau J 3600 720 0)"
    using x(2) by (simp add: s)
  have nz: "max 720 (max 720 0) \<noteq> (0::real)" by simp
  have "0 \<le> 3600 / J" using J by simp
  then have msgs: "AccelDesigner_finish_msgs (AccelCurve_still J 3600 720)
      (AccelCurve_plateau J 3600 720 0)
      ((90 - c_x3 (AccelCurve_plateau J 3600 720 0)) / 720) 90 = []"
    using x(2) by (simp add: AccelDesigner_finish_msgs_def s x(3))
  have "(0::real) < 90" by simp
  from AccelDesigner_reset_cruise [OF this m far ac dc far2 nz, of ad x_start t_start]
  show ?thesis by (simp add: msgs s)
qed

lemma reverse_scenario_curve:
  "AccelCurve_reset j_max c 1 (- 1) (- 2) = Inr (AccelCurve_plateau j_max 1 (- 1) (- 2))"
  "c_t1 (AccelCurve_plateau j_max 1 (- 1) (- 2)) = 1 / 500000"
  "c_t2 (AccelCurve_plateau j_max 1 (- 1) (- 2)) = 1"
  "c_t3 (AccelCurve_plateau j_max 1 (- 1) (- 2)) = 500001 / 500000"
  "c_x3 (AccelCurve_plateau j_max 1 (- 1) (- 2)) = - (1500003 / 1000000)"
  "c_am (AccelCurve_plateau j_max 1 (- 1) (- 2)) = - 1"
  "c_t0 (AccelCurve_plateau j_max 1 (- 1) (- 2)) = 0"
proof -
  have "calcTimeCurve j_max 1 < \<bar>- 2 - (- 1)\<bar> / 1"
    by (simp add: calcTimeCurve_def j_max_def)
  from AccelCurve_reset_plateau [OF j_max_pos _ this]
  show "AccelCurve_reset j_max c 1 (- 1) (- 2) = Inr (AccelCurve_plateau j_max 1 (- 1) (- 2))"
    by simp
qed (simp_all add: AccelCurve_plateau_def Let_def calcTimeCurve_def j_max_def)

lemma reverse_scenario_reset:
  "AccelDesigner_reset j_max AccelDesigner_empty 1 (- 1) (- 1) (- 2) 1 0 0 =
     Inr ([TimeOrderingViolation],
          AccelDesigner_built (AccelCurve_still j_max 1 (- 1)) (AccelCurve_plateau j_max 1 (- 1) (- 2))
            (- (2500003 / 1000000)) 1 0 0)"
proof -
  note p = reverse_scenario_curve
  have s: "c_x3 (AccelCurve_still j_max 1 (- 1)) = 0" "c_t3 (AccelCurve_still j_max 1 (- 1)) = 0"
    by (simp_all add: AccelCurve_still_def)
  have ac: "AccelCurve_reset j_max AccelCurve_empty 1 (- 1) (max (- 1) (max (- 1) (- 2)))
              = Inr (AccelCurve_still j_max 1 (- 1))"
    using AccelCurve_reset_still [OF j_max_pos, of 1 AccelCurve_empty "- 1"] by simp
  have dc: "AccelCurve_reset j_max AccelCurve_empty 1 (max (- 1) (max (- 1) (- 2))) (- 2)
              = Inr (AccelCurve_plateau j_max 1 (- 1) (- 2))"
    using p(1) [of AccelCurve_empty] by simp
  have m: "calcMinDistance j_max 1 (- 1) (- 2) = Inr (c_x3 (AccelCurve_plateau j_max 1 (- 1) (- 2)))"
    by (rule calcMinDistance_value [OF p(1)])
  have far: "\<not> 1 < c_x3 (AccelCurve_plateau j_max 1 (- 1) (- 2))"
    by (simp add: p)
  have far2: "\<not> 1 < c_x3 (AccelCurve_still j_max 1 (- 1))
                       + c_x3 (AccelCurve_plateau j_max 1 (- 1) (- 2))"
    by (simp add: p s)
  have nz: "max (- 1) (max (- 1) (- 2)) \<noteq> (0::real)" by simp
  have "(0::real) < 1" by simp
  from AccelDesigner_reset_cruise [OF this m far ac dc far2 nz, of AccelDesigner_empty 0 0]
  show ?thesis by (simp add: AccelDesigner_finish_msgs_def p s)
qed

section \<open>Rounding to binary32\<close>

lemma round_to_even_error: "\<bar>of_int (round_to_even y) - y\<bar> \<le> 1/2"
proof -
  have "of_int \<lfloor>y\<rfloor> \<le> y" "y < of_int \<lfloor>y\<rfloor> + 1" by linarith+
  then show ?thesis
    by (auto simp: round_to_even_def Let_def)
qed

lemma floor_log2:
  fixes x :: real
  assumes "2 ^ n \<le> x" "x < 2 ^ Suc n"
  shows "\<lfloor>log 2 x\<rfloor> = int n"
proof (rule floor_unique)
  have L: "log 2 ((2::real) ^ k) = real k" for k
    by (simp add: log_nat_power)
  have p: "(0::real) < 2 ^ k" for k by simp
  have x: "0 < x" using assms(1) p [of n] by linarith
  have "log 2 (2 ^ n) \<le> log 2 x"
    using log_le_cancel_iff [of 2 "2 ^ n" x] assms(1) x p [of n] by simp
  then show "of_int (int n) \<le> log 2 x" unfolding L by simp
  have "log 2 x < log 2 (2 ^ Suc n)"
    using log_less_cancel_iff [of 2 x "2 ^ Suc n"] assms(2) x p [of "Suc n"] by simp
  then show "log 2 x < of_int (int n) + 1" unfolding L by simp
qed

lemma binary32_error: "\<bar>binary32 x - x\<bar> \<le> max (\<bar>x\<bar> / 2 ^ 24) (1 / 2 ^ 150)"
proof (cases "x = 0")
  case True
  then show ?thesis by (simp add: binary32_def)
next
  case False
  define e where "e = max \<lfloor>log 2 \<bar>x\<bar>\<rfloor> (- 126)"
  define u :: real where "u = 2 powr (of_int e - 23)"
  have u: "0 < u" by (simp add: u_def)
  have b: "binary32 x = of_int (round_to_even (x / u)) * u"
    using False by (simp add: binary32_def Let_def e_def u_def)
  have "of_int (round_to_even (x / u)) * u - x = (of_int (round_to_even (x / u)) - x / u) * u"
    using u by (simp add: left_diff_distrib)
  then have "\<bar>of_int (round_to_even (x / u)) * u - x\<bar>
               = \<bar>of_int (round_to_even (x / u)) - x / u\<bar> * u"
    using u by (simp add: abs_mult)
  also have "\<dots> \<le> 1/2 * u"
    using round_to_even_error [of "x / u"] u by (intro mult_right_mono) simp_all
  finally have err: "\<bar>binary32 x - x\<bar> \<le> u / 2" by (simp add: b)
  have half: "u / 2 = (2::real) powr (of_int e - 24)"
    by (simp add: u_def powr_diff)
  show ?thesis
  proof (cases "- 126 \<le> \<lfloor>log 2 \<bar>x\<bar>\<rfloor>")
    case True
    then have e: "e = \<lfloor>log 2 \<bar>x\<bar>\<rfloor>" by (simp add: e_def)
    have "of_int e \<le> log 2 \<bar>x\<bar>" unfolding e by linarith
    then have "2 powr of_int e \<le> 2 powr log 2 \<bar>x\<bar>" by (simp del: powr_log_cancel)
    then have "2 powr of_int e \<le> \<bar>x\<bar>" using False by simp
    then have le: "2 powr (of_int e - 24) \<le> \<bar>x\<bar> / 2 ^ 24"
      by (simp add: powr_diff divide_right_mono)
    note err
    also note half
    also note le
    finally show ?thesis by (rule max.coboundedI1)
  next
    case False
    then have e: "e = - 126" by (simp add: e_def)
    have eq: "(2::real) powr (of_int e - 24) = 1 / 2 ^ 150"
      by (simp add: e powr_minus inverse_eq_divide)
    note err
    also note half
    also note eq
    finally show ?thesis by (rule max.coboundedI2)
  qed
qed


lemma binary32_binade:
  fixes x :: real
  assumes "2 ^ n \<le> \<bar>x\<bar>" "\<bar>x\<bar> < 2 ^ Suc n"
  shows "binary32 x = of_int (round_to_even (x / 2 powr (real n - 23))) * 2 powr (real n - 23)"
proof -
  have "(0::real) < 2 ^ n" by simp
  with assms(1) have "x \<noteq> 0" by force
  moreover have "\<lfloor>log 2 \<bar>x\<bar>\<rfloor> = int n" by (rule floor_log2 [OF assms])
  ultimately show ?thesis by (simp add: binary32_def Let_def)
qed

lemma binary32_examples:
  "binary32 16777216 = 16777216"
  "binary32 (5578125 / 64) = 5578125 / 64"
  "binary32 (1079319949 / 64) = 16864374"
proof -
  show "binary32 16777216 = 16777216"
    by (subst binary32_binade [of 24]) (simp_all add: round_to_even_def)
  show "binary32 (5578125 / 64) = 5578125 / 64"
    by (subst binary32_binade [of 16]) (simp_all add: round_to_even_def powr_minus)
  show "binary32 (1079319949 / 64) = 16864374"
    by (subst binary32_binade [of 24]) (simp_all add: round_to_even_def)
qed

section \<open>Claims about AccelCurve\<close>

text \<open>
  Claim C4 (distance law). For every maximal jerk \<open>J > 0\<close>, every old object and every
  \<open>(a_max, v_start, v_end)\<close> with \<open>a_max > 0\<close>, \<open>reset\<close> produces a curve, and its
  terminal position satisfies \<open>x_end() - x0 = (v0 + v3) / 2 * (t3 - t0)\<close>.
\<close>

theorem C4_distance_law:
  assumes "0 < J" and "0 < a_max"
  shows "\<exists>c'. AccelCurve_reset J c a_max v_start v_end = Inr c'
           \<and> AccelCurve_x_end c' - c_x0 c' = (c_v0 c' + c_v3 c') / 2 * (c_t3 c' - c_t0 c')"
proof -
  obtain c' where c': "AccelCurve_reset J c a_max v_start v_end = Inr c'"
    using AccelCurve_reset_total [OF assms] by blast
  show ?thesis
    using c' AccelCurve_reset_fields [OF c'] by (simp add: AccelCurve_x_end_def)
qed

text \<open>Claim C4, witness: the header's \<open>j_max\<close>, braking from 720 to 0 at \<open>a_max = 3600\<close>.\<close>

theorem C4_distance_law_witness:
  "0 < j_max \<and> (0::real) < 3600
   \<and> (\<exists>c'. AccelCurve_reset j_max AccelCurve_empty 3600 720 0 = Inr c'
           \<and> AccelCurve_x_end c' - c_x0 c' = (c_v0 c' + c_v3 c') / 2 * (c_t3 c' - c_t0 c'))"
  using C4_distance_law [of j_max 3600 AccelCurve_empty 720 0] by (simp add: j_max_def)

text \<open>
  Claim C5, counterexample. The claim says that \<open>sign(am) = sign(jm) = sign(v3 - v0)\<close>
  after every \<open>reset\<close> with \<open>a_max > 0\<close>. With \<open>v_start = v_end\<close> the test
  \<^verbatim>\<open>v_end - v_start > 0\<close> fails, so \<open>am = - a_max\<close> and \<open>jm = - j_max\<close> are negative while
  \<open>v3 - v0 = 0\<close>: here \<open>reset(1, 0, 0)\<close>.
\<close>

theorem C5_sign_counterexample:
  "\<not> isl (AccelCurve_reset j_max AccelCurve_empty 1 0 0)
   \<and> sgn (c_am (projr (AccelCurve_reset j_max AccelCurve_empty 1 0 0))) = - 1
   \<and> sgn (c_jm (projr (AccelCurve_reset j_max AccelCurve_empty 1 0 0))) = - 1
   \<and> sgn (c_v3 (projr (AccelCurve_reset j_max AccelCurve_empty 1 0 0))
          - c_v0 (projr (AccelCurve_reset j_max AccelCurve_empty 1 0 0))) = 0"
  by (simp add: AccelCurve_reset_def AccelCurve_reset_times_def Let_def calcTimeCurve_def j_max_def)

text \<open>
  Claim C5, amended. For every \<open>J > 0\<close> and \<open>a_max > 0\<close>, \<open>reset\<close> produces a curve
  whose boundary instants are weakly increasing, \<open>t0 \<le> t1 \<le> t2 \<le> t3\<close>, and whose
  \<open>am\<close> and \<open>jm\<close> have the same sign; that sign is the sign of \<open>v3 - v0\<close> whenever
  \<open>v_start \<noteq> v_end\<close>, and for \<open>v_start = v_end\<close> it is negative (\<open>am = - a_max\<close>,
  \<open>jm = - J\<close>).
\<close>

theorem C5_order_and_signs:
  assumes "0 < J" and "0 < a_max"
  shows "\<exists>c'. AccelCurve_reset J c a_max v_start v_end = Inr c'
           \<and> c_t0 c' \<le> c_t1 c' \<and> c_t1 c' \<le> c_t2 c' \<and> c_t2 c' \<le> c_t3 c'
           \<and> sgn (c_am c') = sgn (c_jm c')
           \<and> (v_start \<noteq> v_end \<longrightarrow> sgn (c_am c') = sgn (c_v3 c' - c_v0 c'))
           \<and> (v_start = v_end \<longrightarrow> c_am c' = - a_max \<and> c_jm c' = - J)"
proof -
  obtain c' where c': "AccelCurve_reset J c a_max v_start v_end = Inr c'"
    and ord: "c_t0 c' \<le> c_t1 c'" "c_t1 c' \<le> c_t2 c'" "c_t2 c' \<le> c_t3 c'"
    using AccelCurve_reset_total [OF assms] by blast
  note f = AccelCurve_reset_fields [OF c']
  have "sgn (c_am c') = sgn (c_jm c')"
    using assms by (simp add: f)
  moreover have "v_start \<noteq> v_end \<longrightarrow> sgn (c_am c') = sgn (c_v3 c' - c_v0 c')"
    using assms by (auto simp: f sgn_if)
  moreover have "v_start = v_end \<longrightarrow> c_am c' = - a_max \<and> c_jm c' = - J"
    by (simp add: f)
  ultimately show ?thesis using c' ord by blast
qed

text \<open>
  Claim C5, witness: an acceleration from 0 to 720 (\<open>v_start \<noteq> v_end\<close>) and the curve
  that keeps the velocity 720 (\<open>v_start = v_end\<close>), both at \<open>a_max = 3600\<close>.
\<close>

theorem C5_order_and_signs_witness:
  "0 < j_max \<and> (0::real) < 3600
   \<and> (\<exists>c'. AccelCurve_reset j_max AccelCurve_empty 3600 0 720 = Inr c'
           \<and> c_t0 c' \<le> c_t1 c' \<and> c_t1 c' \<le> c_t2 c' \<and> c_t2 c' \<le> c_t3 c'
           \<and> sgn (c_am c') = sgn (c_jm c')
           \<and> sgn (c_am c') = sgn (c_v3 c' - c_v0 c'))
   \<and> (\<exists>c'. AccelCurve_reset j_max AccelCurve_empty 3600 720 720 = Inr c'
           \<and> c_t0 c' \<le> c_t1 c' \<and> c_t1 c' \<le> c_t2 c' \<and> c_t2 c' \<le> c_t3 c'
           \<and> sgn (c_am c') = sgn (c_jm c')
           \<and> c_am c' = - 3600 \<and> c_jm c' = - j_max)"
  using C5_order_and_signs [of j_max 3600 AccelCurve_empty 0 720]
    C5_order_and_signs [of j_max 3600 AccelCurve_empty 720 720]
  by (simp add: j_max_def)

text \<open>
  Claim C3 (\<open>calcVelocityMax\<close>). For every \<open>a_max > 0\<close> the function of the source
  computes what the specification states: \<open>tc\<close>, \<open>amtc\<close> and \<open>D\<close> as given, the value
  \<open>(- amtc + sqrt D) / 2\<close> without a message for \<open>D \<ge> 0\<close>, and the value \<open>vs\<close> with
  the error message for \<open>D < 0\<close>. The function is total: it always returns a number.
\<close>

theorem C3_calcVelocityMax:
  assumes "0 < a_max"
  shows "calcVelocityMax J a_max vs ve d = calcVelocityMax_spec J a_max vs ve d"
  using assms
  by (simp add: calcVelocityMax_def calcVelocityMax_spec_def calcTimeCurve_def Let_def
      power2_eq_square not_less)

text \<open>
  Claim C3, witness: with \<open>J = a_max = 1\<close> and \<open>vs = ve = 0\<close>, the distance 2 gives
  \<open>D = 9\<close> and the value 1; the distance \<open>- 1\<close> gives \<open>D = - 3\<close>, the message and the
  value \<open>vs = 0\<close>; and an instance with the header's \<open>j_max\<close>.
\<close>

theorem C3_calcVelocityMax_witness:
  "(0::real) < 1
   \<and> calcVelocityMax 1 1 0 0 2 = calcVelocityMax_spec 1 1 0 0 2
   \<and> calcVelocityMax_spec 1 1 0 0 2 = ([], 1)
   \<and> calcVelocityMax 1 1 0 0 (- 1) = calcVelocityMax_spec 1 1 0 0 (- 1)
   \<and> calcVelocityMax_spec 1 1 0 0 (- 1) = ([InfeasiblePeakVelocity], 0)
   \<and> calcVelocityMax j_max 3600 720 0 90 = calcVelocityMax_spec j_max 3600 720 0 90"
  using C3_calcVelocityMax [of 1 1 0 0 2] C3_calcVelocityMax [of 1 1 0 0 "- 1"]
    C3_calcVelocityMax [of 3600 j_max 720 0 90] calcVelocityMax_example
  by (simp add: calcVelocityMax_def calcTimeCurve_def Let_def)

section \<open>Claims about AccelDesigner\<close>

text \<open>
  Claim C1, counterexample. The claim says that \<open>x_end() - x_start\<close> equals \<open>distance\<close>,
  within 0.1 whenever \<open>distance\<close> exceeds \<open>calcMinDistance(a_max, v_start, v_target)\<close>.
  \<open>x_end()\<close> is the binary32 sum \<open>x_start + distance\<close>. With \<open>x_start = 2 ^ 24\<close> and
  \<open>distance = 87158.203125\<close>, both binary32 numbers, the distance far above the minimal
  distance 74.592 of \<open>a_max = 3600\<close>, \<open>v_start = 720\<close>, \<open>v_target = 0\<close>, the sum
  16864374.203125 lies where binary32 numbers are 2 apart and is rounded to 16864374:
  \<open>x_end() - x_start = 87158\<close>, which is 0.203125 below \<open>distance\<close>.
\<close>

theorem C1_rounding_counterexample:
  "binary32 16777216 = 16777216 \<and> binary32 (5578125 / 64) = 5578125 / 64
   \<and> calcMinDistance j_max 3600 720 0 = Inr (9324 / 125) \<and> (9324 / 125 :: real) < 5578125 / 64
   \<and> AccelDesigner_reset_x0_x3 binary32 (5578125 / 64) 16777216 = (16777216, 16864374)
   \<and> \<bar>(16864374 - 16777216) - 5578125 / 64\<bar> > (1 / 10 :: real)"
  by (simp add: binary32_examples calcMinDistance_brake_720 AccelDesigner_reset_x0_x3_def)

text \<open>
  Claim C1, amended. For every \<open>reset\<close> with \<open>distance > 0\<close>, \<open>x0\<close> is \<open>x_start\<close> and
  \<open>x_end()\<close> is the sum \<open>x_start + distance\<close>, whatever else \<open>reset\<close> computes. In exact
  arithmetic \<open>x_end() - x_start = distance\<close>, and that is the object of the model when
  the model yields one. In binary32, \<open>x_end() - x_start\<close> deviates from \<open>distance\<close> by the
  rounding error of that one addition, which is at most \<open>|x_start + distance| / 2 ^ 24\<close>
  (or \<open>1 / 2 ^ 150\<close>): hence by at most 0.1 whenever \<open>|x_start + distance| \<le> 2 ^ 20\<close>.
\<close>

theorem C1_terminal_position_rounded:
  assumes "0 < distance"
  shows "AccelDesigner_reset_x0_x3 id distance x_start = (x_start, x_start + distance)
       \<and> (\<forall>lg d. AccelDesigner_reset J ad a_max v_start v_sat v_target distance x_start t_start
                   = Inr (lg, d)
            \<longrightarrow> (d_x0 d, AccelDesigner_x_end d) = AccelDesigner_reset_x0_x3 id distance x_start)
       \<and> fst (AccelDesigner_reset_x0_x3 binary32 distance x_start) = x_start
       \<and> (\<bar>x_start + distance\<bar> < 2 ^ 127 \<longrightarrow>
            \<bar>snd (AccelDesigner_reset_x0_x3 binary32 distance x_start) - x_start - distance\<bar>
              \<le> max (\<bar>x_start + distance\<bar> / 2 ^ 24) (1 / 2 ^ 150))
       \<and> (\<bar>x_start + distance\<bar> \<le> 2 ^ 20 \<longrightarrow>
            \<bar>snd (AccelDesigner_reset_x0_x3 binary32 distance x_start) - x_start - distance\<bar>
              \<le> 1 / 10)"
proof (intro conjI allI impI)
  show "AccelDesigner_reset_x0_x3 id distance x_start = (x_start, x_start + distance)"
    using assms by (simp add: AccelDesigner_reset_x0_x3_def)
  show "fst (AccelDesigner_reset_x0_x3 binary32 distance x_start) = x_start"
    by (simp add: AccelDesigner_reset_x0_x3_def Let_def)
  have s: "snd (AccelDesigner_reset_x0_x3 binary32 distance x_start) = binary32 (x_start + distance)"
    using assms by (simp add: AccelDesigner_reset_x0_x3_def)
  have e: "\<bar>binary32 (x_start + distance) - (x_start + distance)\<bar>
             \<le> max (\<bar>x_start + distance\<bar> / 2 ^ 24) (1 / 2 ^ 150)"
    by (rule binary32_error)
  then show "\<bar>snd (AccelDesigner_reset_x0_x3 binary32 distance x_start) - x_start - distance\<bar>
              \<le> max (\<bar>x_start + distance\<bar> / 2 ^ 24) (1 / 2 ^ 150)"
    unfolding s by (simp add: algebra_simps)
  {
    assume "\<bar>x_start + distance\<bar> \<le> 2 ^ 20"
    then have "\<bar>x_start + distance\<bar> / 2 ^ 24 \<le> 1 / 10" by simp
    moreover have "(1::real) / 2 ^ 150 \<le> 1 / 10" by simp
    ultimately have "max (\<bar>x_start + distance\<bar> / 2 ^ 24) (1 / 2 ^ 150) \<le> 1 / 10"
      by (rule max.boundedI)
    with e have "\<bar>binary32 (x_start + distance) - (x_start + distance)\<bar> \<le> 1 / 10"
      by (rule order_trans)
    then show "\<bar>snd (AccelDesigner_reset_x0_x3 binary32 distance x_start) - x_start - distance\<bar>
              \<le> 1 / 10"
      unfolding s by (simp add: algebra_simps)
  }
next
  fix lg d
  assume r: "AccelDesigner_reset J ad a_max v_start v_sat v_target distance x_start t_start
               = Inr (lg, d)"
  from AccelDesigner_reset_shape [OF r] assms
  show "(d_x0 d, AccelDesigner_x_end d) = AccelDesigner_reset_x0_x3 id distance x_start"
    by (auto simp: AccelDesigner_x_end_def AccelDesigner_reset_x0_x3_def)
qed

text \<open>
  Claim C1, witness: \<open>distance = 90\<close> and \<open>x_start = 0\<close>, with the header's \<open>j_max\<close>,
  \<open>a_max = 3600\<close>, \<open>v_start = v_sat = 720\<close> and \<open>v_target = 0\<close> for the object of the model.
\<close>

theorem C1_terminal_position_rounded_witness:
  "(0::real) < 90
   \<and> AccelDesigner_reset_x0_x3 id 90 0 = (0, 90)
   \<and> (\<exists>lg d. AccelDesigner_reset j_max AccelDesigner_empty 3600 720 720 0 90 0 0 = Inr (lg, d)
            \<and> (d_x0 d, AccelDesigner_x_end d) = (0, 90))
   \<and> \<bar>(0::real) + 90\<bar> < 2 ^ 127 \<and> \<bar>(0::real) + 90\<bar> \<le> 2 ^ 20
   \<and> \<bar>snd (AccelDesigner_reset_x0_x3 binary32 90 0) - 0 - 90\<bar>
       \<le> max (\<bar>(0::real) + 90\<bar> / 2 ^ 24) (1 / 2 ^ 150)
   \<and> \<bar>snd (AccelDesigner_reset_x0_x3 binary32 90 0) - 0 - 90\<bar> \<le> 1 / 10"
proof -
  have h: "(0::real) < 90" by simp
  have J: "(72000::real) \<le> j_max" by (simp add: j_max_def)
  note c = C1_terminal_position_rounded [OF h, of 0 j_max AccelDesigner_empty 3600 720 720 0 0]
  from scenario_reset [OF J, of AccelDesigner_empty 0 0] obtain d where
    r: "AccelDesigner_reset j_max AccelDesigner_empty 3600 720 720 0 90 0 0 = Inr ([], d)"
    by blast
  with c have "(d_x0 d, AccelDesigner_x_end d) = (0, 90)" by simp
  with r have "\<exists>lg d. AccelDesigner_reset j_max AccelDesigner_empty 3600 720 720 0 90 0 0
                       = Inr (lg, d) \<and> (d_x0 d, AccelDesigner_x_end d) = (0, 90)"
    by blast
  moreover have "\<bar>snd (AccelDesigner_reset_x0_x3 binary32 90 0) - 0 - 90\<bar> \<le> 1 / 10"
    using c by simp
  moreover have "\<bar>snd (AccelDesigner_reset_x0_x3 binary32 90 0) - 0 - 90\<bar>
       \<le> max (\<bar>(0::real) + 90\<bar> / 2 ^ 24) (1 / 2 ^ 150)"
    using c by simp
  moreover have "AccelDesigner_reset_x0_x3 id 90 0 = (0, 90)"
    using c by simp
  ultimately show ?thesis by simp
qed

text \<open>
  \<open>reset\<close> yields an object whenever \<open>distance\<close> is positive and not below
  \<open>calcMinDistance(a_max, v_start, v_target)\<close>, \<open>a_max > 0\<close>, and the start or the
  target velocity is positive (then the divisor \<open>v_max\<close> is positive).
\<close>

lemma AccelDesigner_reset_total:
  assumes "0 < distance" "0 < J" "0 < a_max" "0 < max v_start v_target"
    "calcMinDistance J a_max v_start v_target = Inr m" "\<not> distance < m"
  shows "\<exists>lg d. AccelDesigner_reset J ad a_max v_start v_sat v_target distance x_start t_start
                 = Inr (lg, d)"
proof -
  have le: "max v_start v_target \<le> max v_start (max v_sat v_target)" by simp
  obtain ms vm ac dc where
    plan: "AccelDesigner_reset_plan J ad a_max v_start v_sat v_target
             ([], v_target, max v_start (max v_sat v_target), distance) = Inr (ms, vm, ac, dc)"
    and vm: "max v_start v_target \<le> vm"
    using reset_plan_total [OF assms(2,3,5,6) le] by blast
  from vm assms(4) have "vm \<noteq> 0" by auto
  from reset_finish_total [OF this] obtain lg d where
    fin: "AccelDesigner_reset_finish ad distance x_start t_start (ms, vm, ac, dc) = Inr (lg, d)"
    by blast
  have "AccelDesigner_reset J ad a_max v_start v_sat v_target distance x_start t_start
          = Inr (lg, d)"
    using assms(1) plan fin by (simp add: AccelDesigner_reset_split clamp_positive)
  then show ?thesis by blast
qed

text \<open>
  Claim C6, counterexample. The claim says that \<open>reset(a_max, v, v, v, 0)\<close> signals no
  anomaly. The guard of the source is \<^verbatim>\<open>distance <= 0\<close>, so the warning is written for
  \<open>distance = 0\<close> too: here \<open>reset(3600, 720, 720, 720, 0)\<close>.
\<close>

theorem C6_warning_counterexample:
  "AccelDesigner_reset j_max AccelDesigner_empty 3600 720 720 720 0 0 0 =
     Inr ([NegativeDistance],
          AccelDesigner_built (AccelCurve_still j_max 3600 720) (AccelCurve_still j_max 3600 720)
            0 0 0 0)"
  using AccelDesigner_reset_zero [of j_max 3600 0 AccelDesigner_empty 720 720 720 0 0]
  by (simp add: j_max_pos)

text \<open>
  Claim C6, amended. For every \<open>a_max > 0\<close> and every velocity \<open>v \<noteq> 0\<close>,
  \<open>reset(a_max, v, v, v, 0, x_start, t_start)\<close> yields \<open>t_end() = t_start\<close> and
  \<open>x_end() = x_start\<close>, and signals exactly one anomaly, the warning for a distance
  \<open>\<le> 0\<close> (neither a distance overrun nor a time ordering error).
\<close>

theorem C6_zero_distance:
  assumes "0 < J" and "0 < a_max" and "v \<noteq> 0"
  shows "\<exists>d. AccelDesigner_reset J ad a_max v v v 0 x_start t_start = Inr ([NegativeDistance], d)
           \<and> AccelDesigner_t_end d = t_start \<and> AccelDesigner_x_end d = x_start"
  using AccelDesigner_reset_zero [OF assms(1,2), of 0 ad v v v x_start t_start] assms(3)
  by (simp add: AccelDesigner_t_end_def AccelDesigner_x_end_def AccelDesigner_built_def
      AccelCurve_still_def)

text \<open>Claim C6, witness: \<open>v = 720\<close>, \<open>x_start = 5\<close>, \<open>t_start = 7\<close>.\<close>

theorem C6_zero_distance_witness:
  "0 < j_max \<and> (0::real) < 3600 \<and> (720::real) \<noteq> 0
   \<and> (\<exists>d. AccelDesigner_reset j_max AccelDesigner_empty 3600 720 720 720 0 5 7
              = Inr ([NegativeDistance], d)
           \<and> AccelDesigner_t_end d = 7 \<and> AccelDesigner_x_end d = 5)"
  using C6_zero_distance [of j_max 3600 720 AccelDesigner_empty 5 7] by (simp add: j_max_pos)

text \<open>
  Claim C7, failing input. The claim says that every \<open>reset\<close> with \<open>distance \<le> 0\<close>
  still produces a complete profile. For \<open>v_start = 0\<close> the clamp sets \<open>v_max = 0\<close>,
  and the cruise duration \<open>(distance - ac.x_end() - dc.x_end()) / v_max\<close> is \<open>0 / 0\<close>:
  \<open>t2\<close> and \<open>t3\<close> have no value. Here \<open>reset(3600, 0, 720, 0, 0)\<close>, a start from rest.
\<close>

theorem C7_failing_input:
  "AccelDesigner_reset j_max AccelDesigner_empty 3600 0 720 0 0 0 0 = Inl DivisionByZero"
  using AccelDesigner_reset_zero [of j_max 3600 0 AccelDesigner_empty 0 720 0 0 0]
  by (simp add: j_max_pos)

text \<open>
  For \<open>v_start \<noteq> 0\<close> the claim holds: the warning is the only message, the object is
  complete, it ends with the velocity \<open>v_start\<close>, and it covers no distance in no time.
\<close>

lemma AccelDesigner_reset_nonpositive:
  assumes "0 < J" and "0 < a_max" and "distance \<le> 0" and "v_start \<noteq> 0"
  shows "\<exists>d. AccelDesigner_reset J ad a_max v_start v_sat v_target distance x_start t_start
               = Inr ([NegativeDistance], d)
           \<and> AccelDesigner_v_end d = v_start \<and> d_x0 d = x_start \<and> d_x3 d = x_start
           \<and> d_t0 d = t_start \<and> d_t1 d = t_start \<and> d_t2 d = t_start \<and> d_t3 d = t_start"
  using AccelDesigner_reset_zero [OF assms(1-3), of ad v_start v_sat v_target x_start t_start]
    assms(4)
  by (simp add: AccelDesigner_v_end_def AccelCurve_v_end_def AccelDesigner_built_def
      AccelCurve_still_def)

text \<open>
  Claim C10 (division by the peak velocity). \<open>reset\<close> divides by \<open>v_max\<close> without a
  guard: for every \<open>a_max > 0\<close>, \<open>reset(a_max, 0, 0, 0, 0)\<close> reaches the division with
  \<open>v_max = 0\<close>, so that \<open>t2\<close> and \<open>t3\<close> are no real numbers and the model returns the
  error of the guarded division.
\<close>

theorem C10_division_by_zero:
  assumes "0 < J" and "0 < a_max"
  shows "AccelDesigner_reset J ad a_max 0 0 0 0 x_start t_start = Inl DivisionByZero"
  using AccelDesigner_reset_zero [OF assms, of 0 ad 0 0 0 x_start t_start] by simp

text \<open>Claim C10, witness: the header's \<open>j_max\<close> and \<open>a_max = 3600\<close>.\<close>

theorem C10_division_by_zero_witness:
  "0 < j_max \<and> (0::real) < 3600
   \<and> AccelDesigner_reset j_max AccelDesigner_empty 3600 0 0 0 0 0 0 = Inl DivisionByZero"
  using C10_division_by_zero [of j_max 3600 AccelDesigner_empty 0 0] by (simp add: j_max_pos)

text \<open>
  Claim C8 (the concrete scenario). For every maximal jerk \<open>J \<ge> 72000\<close>, in particular
  for the 240000 of the claim and for the 500000 of the header,
  \<open>reset(3600, 720, 720, 0, 90, 0, 0)\<close> produces an object without any message, whose
  boundary instants are weakly increasing, whose \<open>x_end()\<close> is 90 within 0.1, and whose
  velocity \<open>v(t)\<close> is between 0 and 720 for every \<open>t\<close> in \<open>[t0, t3]\<close>.
\<close>

theorem C8_scenario:
  assumes "72000 \<le> J"
  shows "\<exists>d. AccelDesigner_reset J ad 3600 720 720 0 90 0 0 = Inr ([], d)
           \<and> d_t0 d \<le> d_t1 d \<and> d_t1 d \<le> d_t2 d \<and> d_t2 d \<le> d_t3 d
           \<and> \<bar>AccelDesigner_x_end d - 90\<bar> \<le> 1/10
           \<and> (\<forall>t. d_t0 d \<le> t \<and> t \<le> d_t3 d \<longrightarrow>
                 0 \<le> AccelDesigner_v d t \<and> AccelDesigner_v d t \<le> 720)"
proof -
  have J: "0 < J" using assms by simp
  let ?p = "AccelCurve_plateau J 3600 720 0"
  let ?d = "AccelDesigner_built (AccelCurve_still J 3600 720) ?p ((90 - c_x3 ?p) / 720) 90 0 0"
  note x = scenario_brake_distance [OF assms]
  have r: "AccelDesigner_reset J ad 3600 720 720 0 90 0 0 = Inr ([], ?d)"
    by (rule scenario_reset [OF assms])
  have t3: "0 \<le> c_t3 ?p" using J by (simp add: x(3))
  have ord: "d_t0 ?d \<le> d_t1 ?d" "d_t1 ?d \<le> d_t2 ?d" "d_t2 ?d \<le> d_t3 ?d"
    using x(2) t3 by (simp_all add: AccelDesigner_built_def AccelCurve_still_def)
  have xe: "\<bar>AccelDesigner_x_end ?d - 90\<bar> \<le> 1/10"
    by (simp add: AccelDesigner_x_end_def AccelDesigner_built_def)
  have lt: "3600 / J < 1 / 5" using assms J by (simp add: field_simps)
  have v: "0 \<le> AccelCurve_v ?p s \<and> AccelCurve_v ?p s \<le> 720" for s
  proof (rule brake_velocity_bounds [where tc = "3600 / J" and ?T2.0 = "1 / 5" and J = J
        and a = 3600])
    show "c_t3 ?p = 1 / 5 + 3600 / J" by (rule x(3))
    show "3600 / J < 1 / 5" by (rule lt)
  qed (use J in \<open>simp_all add: plateau_brake_fields\<close>)
  have "0 \<le> AccelDesigner_v ?d t \<and> AccelDesigner_v ?d t \<le> 720" for t
    using v [of "t - d_t2 ?d"]
    by (simp add: AccelDesigner_v_def AccelDesigner_built_def)
  with r ord xe show ?thesis by blast
qed

text \<open>
  Claim C8, witness: \<open>J = 240000\<close>, where \<open>t3 = 93 / 400\<close>, with \<open>t = 1 / 10\<close>; and
  the header's \<open>j_max\<close>.
\<close>

theorem C8_scenario_witness:
  "(72000::real) \<le> 240000
   \<and> (\<exists>d. AccelDesigner_reset 240000 AccelDesigner_empty 3600 720 720 0 90 0 0 = Inr ([], d)
           \<and> d_t0 d \<le> d_t1 d \<and> d_t1 d \<le> d_t2 d \<and> d_t2 d \<le> d_t3 d
           \<and> \<bar>AccelDesigner_x_end d - 90\<bar> \<le> 1/10
           \<and> d_t0 d \<le> 1/10 \<and> 1/10 \<le> d_t3 d
           \<and> 0 \<le> AccelDesigner_v d (1/10) \<and> AccelDesigner_v d (1/10) \<le> 720)
   \<and> (72000::real) \<le> j_max
   \<and> (\<exists>d. AccelDesigner_reset j_max AccelDesigner_empty 3600 720 720 0 90 0 0 = Inr ([], d)
           \<and> d_t0 d \<le> d_t1 d \<and> d_t1 d \<le> d_t2 d \<and> d_t2 d \<le> d_t3 d
           \<and> \<bar>AccelDesigner_x_end d - 90\<bar> \<le> 1/10)"
proof -
  have h: "(72000::real) \<le> j_max" by (simp add: j_max_def)
  have header: "\<exists>d. AccelDesigner_reset j_max AccelDesigner_empty 3600 720 720 0 90 0 0 = Inr ([], d)
           \<and> d_t0 d \<le> d_t1 d \<and> d_t1 d \<le> d_t2 d \<and> d_t2 d \<le> d_t3 d
           \<and> \<bar>AccelDesigner_x_end d - 90\<bar> \<le> 1/10"
    using C8_scenario [OF h, of AccelDesigner_empty] by blast
  have r: "AccelDesigner_reset 240000 AccelDesigner_empty 3600 720 720 0 90 0 0 =
     Inr ([], AccelDesigner_built (AccelCurve_still 240000 3600 720)
                (AccelCurve_plateau 240000 3600 720 0)
                ((90 - c_x3 (AccelCurve_plateau 240000 3600 720 0)) / 720) 90 0 0)"
    by (rule scenario_reset) simp
  have t: "d_t0 (AccelDesigner_built (AccelCurve_still 240000 3600 720)
                (AccelCurve_plateau 240000 3600 720 0)
                ((90 - c_x3 (AccelCurve_plateau 240000 3600 720 0)) / 720) 90 0 0) = 0"
    "d_t3 (AccelDesigner_built (AccelCurve_still 240000 3600 720)
                (AccelCurve_plateau 240000 3600 720 0)
                ((90 - c_x3 (AccelCurve_plateau 240000 3600 720 0)) / 720) 90 0 0) = 93 / 400"
    by (simp_all add: AccelDesigner_built_def AccelCurve_still_def scenario_brake_distance)
  from C8_scenario [of 240000 AccelDesigner_empty]
  obtain d where d: "AccelDesigner_reset 240000 AccelDesigner_empty 3600 720 720 0 90 0 0 = Inr ([], d)"
    "d_t0 d \<le> d_t1 d" "d_t1 d \<le> d_t2 d" "d_t2 d \<le> d_t3 d"
    "\<bar>AccelDesigner_x_end d - 90\<bar> \<le> 1/10"
    "\<forall>t. d_t0 d \<le> t \<and> t \<le> d_t3 d \<longrightarrow> 0 \<le> AccelDesigner_v d t \<and> AccelDesigner_v d t \<le> 720"
    by auto
  from d(1) r have "d = AccelDesigner_built (AccelCurve_still 240000 3600 720)
                (AccelCurve_plateau 240000 3600 720 0)
                ((90 - c_x3 (AccelCurve_plateau 240000 3600 720 0)) / 720) 90 0 0"
    by simp
  with t have b: "d_t0 d \<le> 1/10" "1/10 \<le> d_t3 d" by simp_all
  with d(6) have "0 \<le> AccelDesigner_v d (1/10) \<and> AccelDesigner_v d (1/10) \<le> 720" by blast
  with d b have "\<exists>d. AccelDesigner_reset 240000 AccelDesigner_empty 3600 720 720 0 90 0 0 = Inr ([], d)
           \<and> d_t0 d \<le> d_t1 d \<and> d_t1 d \<le> d_t2 d \<and> d_t2 d \<le> d_t3 d
           \<and> \<bar>AccelDesigner_x_end d - 90\<bar> \<le> 1/10
           \<and> d_t0 d \<le> 1/10 \<and> 1/10 \<le> d_t3 d
           \<and> 0 \<le> AccelDesigner_v d (1/10) \<and> AccelDesigner_v d (1/10) \<le> 720"
    by blast
  with h header show ?thesis by simp
qed

section \<open>Claims about the evaluators\<close>

text \<open>
  Claim C2, counterexample. The claim says that outside \<open>[t0, t3]\<close> the evaluators
  return constants, the boundary position \<open>x0\<close> for \<open>t < t0\<close>. The position evaluator of
  \<open>AccelCurve\<close> returns \<^verbatim>\<open>x0 + v0 * (t - t0)\<close> there: after \<open>reset(3600, 720, 0)\<close>,
  \<open>x(- 1) = - 720\<close> while \<open>x0 = 0\<close>. Moreover, an \<open>AccelDesigner\<close> whose cruise duration
  is negative has \<open>t2 < t0\<close>, and then evaluates its braking curve before \<open>t0\<close>: after
  \<open>reset(1, - 1, - 1, - 2, 1, 0, 0)\<close> (which reports the time ordering error),
  \<open>a(- 2) = - 1\<close> although \<open>- 2 < t0 = 0\<close>.
\<close>

theorem C2_position_counterexample:
  "AccelCurve_reset j_max AccelCurve_empty 3600 720 0 = Inr (AccelCurve_plateau j_max 3600 720 0)
   \<and> - 1 < c_t0 (AccelCurve_plateau j_max 3600 720 0)
   \<and> c_x0 (AccelCurve_plateau j_max 3600 720 0) = 0
   \<and> AccelCurve_x (AccelCurve_plateau j_max 3600 720 0) (- 1) = - 720
   \<and> AccelDesigner_reset j_max AccelDesigner_empty 1 (- 1) (- 1) (- 2) 1 0 0 =
       Inr ([TimeOrderingViolation],
            AccelDesigner_built (AccelCurve_still j_max 1 (- 1))
              (AccelCurve_plateau j_max 1 (- 1) (- 2)) (- (2500003 / 1000000)) 1 0 0)
   \<and> - 2 < d_t0 (AccelDesigner_built (AccelCurve_still j_max 1 (- 1))
              (AccelCurve_plateau j_max 1 (- 1) (- 2)) (- (2500003 / 1000000)) 1 0 0)
   \<and> AccelDesigner_a (AccelDesigner_built (AccelCurve_still j_max 1 (- 1))
              (AccelCurve_plateau j_max 1 (- 1) (- 2)) (- (2500003 / 1000000)) 1 0 0) (- 2) = - 1"
proof -
  have "calcTimeCurve j_max 3600 < \<bar>0 - 720\<bar> / 3600"
    by (simp add: calcTimeCurve_def j_max_def)
  from AccelCurve_reset_plateau [OF j_max_pos _ this, of AccelCurve_empty]
  have 1: "AccelCurve_reset j_max AccelCurve_empty 3600 720 0
             = Inr (AccelCurve_plateau j_max 3600 720 0)"
    by simp
  have 2: "- 1 < c_t0 (AccelCurve_plateau j_max 3600 720 0)"
    "c_x0 (AccelCurve_plateau j_max 3600 720 0) = 0"
    "AccelCurve_x (AccelCurve_plateau j_max 3600 720 0) (- 1) = - 720"
    by (simp_all add: AccelCurve_x_def AccelCurve_plateau_def Let_def)
  have 3: "- 2 < d_t0 (AccelDesigner_built (AccelCurve_still j_max 1 (- 1))
              (AccelCurve_plateau j_max 1 (- 1) (- 2)) (- (2500003 / 1000000)) 1 0 0)"
    by (simp add: AccelDesigner_built_def)
  have 4: "AccelDesigner_a (AccelDesigner_built (AccelCurve_still j_max 1 (- 1))
              (AccelCurve_plateau j_max 1 (- 1) (- 2)) (- (2500003 / 1000000)) 1 0 0) (- 2) = - 1"
    by (simp add: AccelDesigner_a_def AccelDesigner_built_def AccelCurve_a_def
        reverse_scenario_curve AccelCurve_still_def)
  from 1 2 3 4 reverse_scenario_reset show ?thesis by simp
qed

text \<open>
  Claim C2, amended. The evaluators accept every real \<open>t\<close>. For every \<open>AccelCurve\<close>
  after \<open>reset\<close>: for \<open>t < t0\<close>, \<open>j = 0\<close>, \<open>a = 0\<close>, \<open>v = v0\<close> and
  \<open>x = x0 + v0 (t - t0)\<close>; for \<open>t > t3\<close>, \<open>j = 0\<close>, \<open>a = 0\<close>, \<open>v = v3\<close> and
  \<open>x = x3 + v3 (t - t3)\<close>: the position continues linearly with the boundary velocity.
  For every \<open>AccelDesigner\<close> after \<open>reset\<close> the same holds with \<open>v0 = v_start\<close> and
  \<open>v3 = v_end()\<close>, for \<open>t > t3\<close> always and for \<open>t < t0\<close> whenever \<open>t0 \<le> t2\<close>.
\<close>

theorem C2_outside_range:
  assumes "0 < J"
  shows "(\<forall>c'. AccelCurve_reset J c a_max v_start v_end = Inr c' \<longrightarrow>
            (\<forall>t. t < c_t0 c' \<longrightarrow>
               AccelCurve_j J c' t = 0 \<and> AccelCurve_a c' t = 0 \<and> AccelCurve_v c' t = c_v0 c'
               \<and> AccelCurve_x c' t = c_x0 c' + c_v0 c' * (t - c_t0 c'))
          \<and> (\<forall>t. c_t3 c' < t \<longrightarrow>
               AccelCurve_j J c' t = 0 \<and> AccelCurve_a c' t = 0 \<and> AccelCurve_v c' t = c_v3 c'
               \<and> AccelCurve_x c' t = c_x3 c' + c_v3 c' * (t - c_t3 c')))
       \<and> (\<forall>lg d. AccelDesigner_reset J ad a_max v_start v_sat v_target distance x_start t_start
                    = Inr (lg, d) \<longrightarrow>
            (\<forall>t. t < d_t0 d \<and> d_t0 d \<le> d_t2 d \<longrightarrow>
               AccelDesigner_j J d t = 0 \<and> AccelDesigner_a d t = 0
               \<and> AccelDesigner_v d t = v_start
               \<and> AccelDesigner_x d t = d_x0 d + v_start * (t - d_t0 d))
          \<and> (\<forall>t. d_t3 d < t \<longrightarrow>
               AccelDesigner_j J d t = 0 \<and> AccelDesigner_a d t = 0
               \<and> AccelDesigner_v d t = AccelDesigner_v_end d
               \<and> AccelDesigner_x d t = d_x3 d + AccelDesigner_v_end d * (t - d_t3 d)))"
proof (intro conjI allI impI)
  fix c' t
  assume r: "AccelCurve_reset J c a_max v_start v_end = Inr c'"
  note o = AccelCurve_reset_ordered [OF assms r]
  {
    assume "t < c_t0 c'"
    from AccelCurve_before [OF this]
    show "AccelCurve_j J c' t = 0" "AccelCurve_a c' t = 0" "AccelCurve_v c' t = c_v0 c'"
      "AccelCurve_x c' t = c_x0 c' + c_v0 c' * (t - c_t0 c')" .
  }
  {
    assume "c_t3 c' < t"
    from AccelCurve_after [OF o this]
    show "AccelCurve_j J c' t = 0" "AccelCurve_a c' t = 0" "AccelCurve_v c' t = c_v3 c'"
      "AccelCurve_x c' t = c_x3 c' + c_v3 c' * (t - c_t3 c')" .
  }
next
  fix lg d t
  assume r: "AccelDesigner_reset J ad a_max v_start v_sat v_target distance x_start t_start
               = Inr (lg, d)"
  from AccelDesigner_reset_shape [OF r] obtain v_max v_e ca cb where
    ac: "AccelCurve_reset J ca a_max v_start v_max = Inr (d_ac d)" and
    dc: "AccelCurve_reset J cb a_max v_max v_e = Inr (d_dc d)" and
    t3: "d_t3 d = d_t2 d + c_t3 (d_dc d)"
    by blast
  note fa = AccelCurve_reset_fields [OF ac]
  note fd = AccelCurve_reset_fields [OF dc]
  note od = AccelCurve_reset_ordered [OF assms dc]
  {
    assume "t < d_t0 d \<and> d_t0 d \<le> d_t2 d"
    then have lt: "t < d_t2 d" and b: "t - d_t0 d < c_t0 (d_ac d)"
      by (simp_all add: fa)
    from lt AccelCurve_before [OF b]
    show "AccelDesigner_j J d t = 0" "AccelDesigner_a d t = 0" "AccelDesigner_v d t = v_start"
      "AccelDesigner_x d t = d_x0 d + v_start * (t - d_t0 d)"
      by (simp_all add: AccelDesigner_j_def AccelDesigner_a_def AccelDesigner_v_def
          AccelDesigner_x_def fa)
  }
  {
    assume a: "d_t3 d < t"
    have "0 \<le> c_t3 (d_dc d)" using od by (simp add: fd)
    with a t3 have ge: "\<not> t < d_t2 d" and b: "c_t3 (d_dc d) < t - d_t2 d"
      by simp_all
    from ge AccelCurve_after [OF od b]
    show "AccelDesigner_j J d t = 0" "AccelDesigner_a d t = 0"
      "AccelDesigner_v d t = AccelDesigner_v_end d"
      "AccelDesigner_x d t = d_x3 d + AccelDesigner_v_end d * (t - d_t3 d)"
      by (simp_all add: AccelDesigner_j_def AccelDesigner_a_def AccelDesigner_v_def
          AccelDesigner_x_def AccelDesigner_v_end_def AccelCurve_v_end_def
          AccelCurve_x_end_def t3 algebra_simps)
  }
qed

text \<open>
  Claim C2, witness: the header's \<open>j_max\<close>, the curve of \<open>reset(3600, 720, 0)\<close> and the
  designer of \<open>reset(3600, 720, 720, 0, 90, 0, 0)\<close>, at \<open>t = - 1\<close> and at \<open>t = 1\<close>.
\<close>

theorem C2_outside_range_witness:
  "0 < j_max
   \<and> (\<exists>c'. AccelCurve_reset j_max AccelCurve_empty 3600 720 0 = Inr c'
          \<and> - 1 < c_t0 c' \<and> c_t3 c' < 1
          \<and> AccelCurve_j j_max c' (- 1) = 0 \<and> AccelCurve_a c' (- 1) = 0
          \<and> AccelCurve_v c' (- 1) = 720 \<and> AccelCurve_x c' (- 1) = - 720
          \<and> AccelCurve_j j_max c' 1 = 0 \<and> AccelCurve_a c' 1 = 0
          \<and> AccelCurve_v c' 1 = 0 \<and> AccelCurve_x c' 1 = c_x3 c')
   \<and> (\<exists>lg d. AccelDesigner_reset j_max AccelDesigner_empty 3600 720 720 0 90 0 0 = Inr (lg, d)
          \<and> - 1 < d_t0 d \<and> d_t0 d \<le> d_t2 d \<and> d_t3 d < 1
          \<and> AccelDesigner_j j_max d (- 1) = 0 \<and> AccelDesigner_a d (- 1) = 0
          \<and> AccelDesigner_v d (- 1) = 720 \<and> AccelDesigner_x d (- 1) = - 720
          \<and> AccelDesigner_j j_max d 1 = 0 \<and> AccelDesigner_a d 1 = 0
          \<and> AccelDesigner_v d 1 = 0 \<and> AccelDesigner_x d 1 = 90)"
proof -
  let ?p = "AccelCurve_plateau j_max 3600 720 0"
  let ?d = "AccelDesigner_built (AccelCurve_still j_max 3600 720) ?p ((90 - c_x3 ?p) / 720) 90 0 0"
  have J: "(72000::real) \<le> j_max" by (simp add: j_max_def)
  have "calcTimeCurve j_max 3600 < \<bar>0 - 720\<bar> / 3600"
    by (simp add: calcTimeCurve_def j_max_def)
  from AccelCurve_reset_plateau [OF j_max_pos _ this, of AccelCurve_empty]
  have rc: "AccelCurve_reset j_max AccelCurve_empty 3600 720 0 = Inr ?p"
    by simp
  have rd: "AccelDesigner_reset j_max AccelDesigner_empty 3600 720 720 0 90 0 0 = Inr ([], ?d)"
    by (rule scenario_reset [OF J])
  note x = scenario_brake_distance [OF J]
  have fc: "c_t0 ?p = 0" "c_t3 ?p = 259 / 1250" "c_v0 ?p = 720" "c_v3 ?p = 0" "c_x0 ?p = 0"
    by (simp_all add: AccelCurve_plateau_def Let_def calcTimeCurve_def j_max_def)
  have fd: "d_t0 ?d = 0" "d_t2 ?d = 107 / 5000" "d_t3 ?d = 1143 / 5000" "d_x0 ?d = 0"
    "d_x3 ?d = 90" "AccelDesigner_v_end ?d = 0"
    by (simp_all add: AccelDesigner_built_def AccelCurve_still_def x AccelDesigner_v_end_def
        AccelCurve_v_end_def fc)
       (simp_all add: j_max_def)
  from C2_outside_range [OF j_max_pos, of AccelCurve_empty 3600 720 0 AccelDesigner_empty
       720 0 90 0 0] rc rd
  have c: "\<forall>t. t < c_t0 ?p \<longrightarrow>
               AccelCurve_j j_max ?p t = 0 \<and> AccelCurve_a ?p t = 0 \<and> AccelCurve_v ?p t = c_v0 ?p
               \<and> AccelCurve_x ?p t = c_x0 ?p + c_v0 ?p * (t - c_t0 ?p)"
    "\<forall>t. c_t3 ?p < t \<longrightarrow>
               AccelCurve_j j_max ?p t = 0 \<and> AccelCurve_a ?p t = 0 \<and> AccelCurve_v ?p t = c_v3 ?p
               \<and> AccelCurve_x ?p t = c_x3 ?p + c_v3 ?p * (t - c_t3 ?p)"
    and d: "\<forall>t. t < d_t0 ?d \<and> d_t0 ?d \<le> d_t2 ?d \<longrightarrow>
               AccelDesigner_j j_max ?d t = 0 \<and> AccelDesigner_a ?d t = 0
               \<and> AccelDesigner_v ?d t = 720
               \<and> AccelDesigner_x ?d t = d_x0 ?d + 720 * (t - d_t0 ?d)"
     "\<forall>t. d_t3 ?d < t \<longrightarrow>
               AccelDesigner_j j_max ?d t = 0 \<and> AccelDesigner_a ?d t = 0
               \<and> AccelDesigner_v ?d t = AccelDesigner_v_end ?d
               \<and> AccelDesigner_x ?d t = d_x3 ?d + AccelDesigner_v_end ?d * (t - d_t3 ?d)"
    by blast+
  have c1: "AccelCurve_j j_max ?p (- 1) = 0 \<and> AccelCurve_a ?p (- 1) = 0
      \<and> AccelCurve_v ?p (- 1) = 720 \<and> AccelCurve_x ?p (- 1) = - 720"
    using c(1) [rule_format, of "- 1"] by (simp add: fc)
  have c2: "AccelCurve_j j_max ?p 1 = 0 \<and> AccelCurve_a ?p 1 = 0
      \<and> AccelCurve_v ?p 1 = 0 \<and> AccelCurve_x ?p 1 = c_x3 ?p"
    using c(2) [rule_format, of 1] by (simp add: fc)
  have d1: "AccelDesigner_j j_max ?d (- 1) = 0 \<and> AccelDesigner_a ?d (- 1) = 0
      \<and> AccelDesigner_v ?d (- 1) = 720 \<and> AccelDesigner_x ?d (- 1) = - 720"
    using d(1) [rule_format, of "- 1"] by (simp add: fd)
  have d2: "AccelDesigner_j j_max ?d 1 = 0 \<and> AccelDesigner_a ?d 1 = 0
      \<and> AccelDesigner_v ?d 1 = 0 \<and> AccelDesigner_x ?d 1 = 90"
    using d(2) [rule_format, of 1] by (simp add: fd)
  have "\<exists>c'. AccelCurve_reset j_max AccelCurve_empty 3600 720 0 = Inr c'
          \<and> - 1 < c_t0 c' \<and> c_t3 c' < 1
          \<and> AccelCurve_j j_max c' (- 1) = 0 \<and> AccelCurve_a c' (- 1) = 0
          \<and> AccelCurve_v c' (- 1) = 720 \<and> AccelCurve_x c' (- 1) = - 720
          \<and> AccelCurve_j j_max c' 1 = 0 \<and> AccelCurve_a c' 1 = 0
          \<and> AccelCurve_v c' 1 = 0 \<and> AccelCurve_x c' 1 = c_x3 c'"
    using rc c1 c2 by (intro exI [of _ ?p]) (simp add: fc)
  moreover have "\<exists>lg d. AccelDesigner_reset j_max AccelDesigner_empty 3600 720 720 0 90 0 0
                         = Inr (lg, d)
          \<and> - 1 < d_t0 d \<and> d_t0 d \<le> d_t2 d \<and> d_t3 d < 1
          \<and> AccelDesigner_j j_max d (- 1) = 0 \<and> AccelDesigner_a d (- 1) = 0
          \<and> AccelDesigner_v d (- 1) = 720 \<and> AccelDesigner_x d (- 1) = - 720
          \<and> AccelDesigner_j j_max d 1 = 0 \<and> AccelDesigner_a d 1 = 0
          \<and> AccelDesigner_v d 1 = 0 \<and> AccelDesigner_x d 1 = 90"
    using rd d1 d2 by (intro exI [of _ "[]"] exI [of _ ?d]) (simp add: fd)
  ultimately show ?thesis using j_max_pos by blast
qed

end
